theory Spec2Isabelle
  imports Complex_Main "HOL-Library.AList"
begin

section \<open>Strings and the regular expressions of \<^verbatim>\<open>utils.ts\<close>\<close>

text \<open>
  A JavaScript string is modelled as a \<^typ>\<open>string\<close>: a list of code units, each below 256.
  On that range the white space of \<^verbatim>\<open>String.prototype.trim\<close> and of the class
  \<^verbatim>\<open>\s\<close> is TAB, LF, VT, FF, CR, SPACE and NBSP; \<^verbatim>\<open>\d\<close> is \<^verbatim>\<open>[0-9]\<close> and
  \<^verbatim>\<open>\w\<close> is \<^verbatim>\<open>[A-Za-z0-9_]\<close>. Under the flag \<^verbatim>\<open>i\<close> (without \<^verbatim>\<open>u\<close>) an ASCII
  letter of a pattern matches exactly its two ASCII cases.
\<close>

definition is_space :: "char \<Rightarrow> bool" where
  "is_space c = (of_char c \<in> {9, 10, 11, 12, 13, 32, 160 :: nat})"

definition is_digit :: "char \<Rightarrow> bool" where
  "is_digit c = (48 \<le> (of_char c :: nat) \<and> (of_char c :: nat) \<le> 57)"

definition is_upper :: "char \<Rightarrow> bool" where
  "is_upper c = (65 \<le> (of_char c :: nat) \<and> (of_char c :: nat) \<le> 90)"

definition is_lower :: "char \<Rightarrow> bool" where
  "is_lower c = (97 \<le> (of_char c :: nat) \<and> (of_char c :: nat) \<le> 122)"

text \<open>The class \<^verbatim>\<open>\w\<close>.\<close>

definition is_word :: "char \<Rightarrow> bool" where
  "is_word c = (is_upper c \<or> is_lower c \<or> is_digit c \<or> c = CHR ''_'')"

text \<open>Case folding of one code unit, for patterns with the flag \<^verbatim>\<open>i\<close>.\<close>

definition fold_case :: "char \<Rightarrow> char" where
  "fold_case c = (if is_upper c then char_of (of_char c + (32 :: nat)) else c)"

text \<open>\<^verbatim>\<open>String.prototype.trim\<close>.\<close>

definition trim :: "string \<Rightarrow> string" where
  "trim s = rev (dropWhile is_space (rev (dropWhile is_space s)))"

text \<open>A literal matches, ignoring case, at the start of the text.\<close>

definition starts_with_ci :: "string \<Rightarrow> string \<Rightarrow> bool" where
  "starts_with_ci p s =
     (length p \<le> length s \<and> map fold_case (take (length p) s) = map fold_case p)"

text \<open>
  \<^verbatim>\<open>/p1|p2|.../i.test(s)\<close> for literal alternatives: some alternative matches at some
  position. Without the flags \<^verbatim>\<open>g\<close> and \<^verbatim>\<open>y\<close> the search starts at 0 and the
  expression keeps no state.
\<close>

fun test_ci :: "string list \<Rightarrow> string \<Rightarrow> bool" where
  "test_ci ps [] = False"
| "test_ci ps (c # cs) = (find (\<lambda>p. starts_with_ci p (c # cs)) ps \<noteq> None \<or> test_ci ps cs)"

text \<open>
  \<^verbatim>\<open>s.replace(/p1|p2|.../gi, r)\<close> for non-empty literal alternatives and a replacement
  without \<^verbatim>\<open>$\<close>: scanning from the left, the first alternative that matches at the
  current position is replaced and the scan resumes after the match. The counter is the
  number of code units of the current match still to be skipped.
\<close>

fun replace_ci :: "string list \<Rightarrow> string \<Rightarrow> nat \<Rightarrow> string \<Rightarrow> string" where
  "replace_ci ps r k [] = []"
| "replace_ci ps r (Suc k) (c # cs) = replace_ci ps r k cs"
| "replace_ci ps r 0 (c # cs) =
     (case find (\<lambda>p. starts_with_ci p (c # cs)) ps of
        Some p \<Rightarrow> r @ replace_ci ps r (length p - 1) cs
      | None \<Rightarrow> c # replace_ci ps r 0 cs)"

text \<open>
  \<^verbatim>\<open>s.replace(/<[^>]*>/g, "")\<close>: a \<^verbatim>\<open><\<close> with a \<^verbatim>\<open>>\<close> somewhere after it starts a
  match that ends at the first such \<^verbatim>\<open>>\<close>; a \<^verbatim>\<open><\<close> with none is kept. The flag says
  whether the scan is inside a match.
\<close>

fun strip_tags :: "bool \<Rightarrow> string \<Rightarrow> string" where
  "strip_tags inside [] = []"
| "strip_tags True (c # cs) =
     (if c = CHR ''>'' then strip_tags False cs else strip_tags True cs)"
| "strip_tags False (c # cs) =
     (if c = CHR ''<'' \<and> CHR ''>'' \<in> set cs then strip_tags True cs
      else c # strip_tags False cs)"

text \<open>
  \<^verbatim>\<open>/<[^>]*>|&[#\w]+;/\<close> at the start of the text: the length of the match, if any. The
  greedy run \<^verbatim>\<open>[#\w]+\<close> cannot give back a code unit to \<^verbatim>\<open>;\<close>, so the run is the
  longest one and a \<^verbatim>\<open>;\<close> must follow it.
\<close>

definition is_entity_char :: "char \<Rightarrow> bool" where
  "is_entity_char c = (c = CHR ''#'' \<or> is_word c)"

fun match_tag_or_entity :: "string \<Rightarrow> nat option" where
  "match_tag_or_entity [] = None"
| "match_tag_or_entity (c # cs) =
     (if c = CHR ''<'' then
        (if CHR ''>'' \<in> set cs then Some (length (takeWhile (\<lambda>x. x \<noteq> CHR ''>'') cs) + 2)
         else None)
      else if c = CHR ''&'' then
        (let run = takeWhile is_entity_char cs in
         if run \<noteq> [] \<and> take 1 (drop (length run) cs) = '';'' then Some (length run + 2)
         else None)
      else None)"

text \<open>The end index of the first match at or after index \<open>i\<close>, the text being the part from \<open>i\<close> on.\<close>

fun find_match :: "nat \<Rightarrow> string \<Rightarrow> nat option" where
  "find_match i [] = None"
| "find_match i (c # cs) =
     (case match_tag_or_entity (c # cs) of
        Some n \<Rightarrow> Some (i + n)
      | None \<Rightarrow> find_match (Suc i) cs)"

text \<open>
  \<^verbatim>\<open>RegExp.prototype.test\<close> of an expression with the flag \<^verbatim>\<open>g\<close>: the search starts at
  \<^verbatim>\<open>lastIndex\<close>; a match stores its end index there, a failure stores 0. The second
  component is the new \<^verbatim>\<open>lastIndex\<close>.
\<close>

definition test_global :: "nat \<Rightarrow> string \<Rightarrow> bool \<times> nat" where
  "test_global lastIndex s =
     (if lastIndex > length s then (False, 0)
      else case find_match lastIndex (drop lastIndex s) of
             Some e \<Rightarrow> (True, e)
           | None \<Rightarrow> (False, 0))"

section \<open>The sanitizer of \<^verbatim>\<open>utils.ts\<close>\<close>

text \<open>
  The host's sanitizing primitive (\<^verbatim>\<open>DOMPurify.sanitize\<close>) is a parameter: a function of
  the text and the configuration object, whose result \<open>None\<close> stands for a call that
  throws (or returns a value whose \<^verbatim>\<open>.trim()\<close> throws).
\<close>

record sanitize_config =
  ALLOWED_TAGS :: "string list"
  ALLOWED_ATTR :: "string list"
  KEEP_CONTENT :: "bool option"

type_synonym sanitizer = "string \<Rightarrow> sanitize_config \<Rightarrow> string option"

text \<open>
  A property of the imported module, as \<^verbatim>\<open>getSafeSanitizer\<close> reads it: falsy, truthy
  but not a function, or a function. The module is \<open>None\<close> when it is nullish or when
  reading it throws; \<open>default_sanitize\<close> is \<^verbatim>\<open>dp?.default?.sanitize\<close>.
\<close>

datatype module_property = Falsy | Truthy_not_callable | Callable sanitizer

record dompurify_module =
  sanitize :: module_property
  default_sanitize :: module_property

text \<open>
  \<^verbatim>\<open>getSafeSanitizer\<close>: \<^verbatim>\<open>||\<close> takes the first property unless it is falsy, and
  \<^verbatim>\<open>typeof\<close> is tested once, on what \<^verbatim>\<open>||\<close> gave.
\<close>

definition getSafeSanitizer :: "dompurify_module option \<Rightarrow> sanitizer option" where
  "getSafeSanitizer dp =
     (case dp of
        None \<Rightarrow> None
      | Some m \<Rightarrow>
          (case (case sanitize m of Falsy \<Rightarrow> default_sanitize m | p \<Rightarrow> p) of
             Callable f \<Rightarrow> Some f
           | _ \<Rightarrow> None))"

text \<open>The four expressions of \<^verbatim>\<open>DANGER_PATTERNS\<close>; only the last has the flag \<^verbatim>\<open>g\<close>.\<close>

definition danger_tags :: "string list" where
  "danger_tags = [''<svg'', ''<img'', ''<script'', ''<iframe'', ''<object'', ''<embed'',
     ''<link'', ''<meta'', ''<style'', ''<base'']"

definition danger_handlers :: "string list" where
  "danger_handlers = [''onload='', ''onerror='', ''onclick='']"

definition danger_protocols :: "string list" where
  "danger_protocols = [''javascript:'', ''data:'']"

text \<open>
  \<^verbatim>\<open>checkForHTMLTags\<close>. \<^verbatim>\<open>DANGER_PATTERNS\<close> is a module constant, so the
  \<^verbatim>\<open>lastIndex\<close> of its fourth expression lives across calls: it is passed in and
  returned. \<^verbatim>\<open>some\<close> stops at the first expression that matches, so the fourth is
  only run, and its \<^verbatim>\<open>lastIndex\<close> only written, when the first three fail.
\<close>

definition checkForHTMLTags :: "sanitizer option \<Rightarrow> nat \<Rightarrow> string \<Rightarrow> bool \<times> nat" where
  "checkForHTMLTags internalSanitize lastIndex input =
     (if input = [] \<or> trim input = [] then (False, lastIndex)
      else if test_ci danger_tags input then (True, lastIndex)
      else if test_ci danger_handlers input then (True, lastIndex)
      else if test_ci danger_protocols input then (True, lastIndex)
      else case test_global lastIndex input of
        (True, li) \<Rightarrow> (True, li)
      | (False, li) \<Rightarrow>
          (case internalSanitize of
             None \<Rightarrow> (False, li)
           | Some f \<Rightarrow>
               (case f input \<lparr>ALLOWED_TAGS = [], ALLOWED_ATTR = [], KEEP_CONTENT = None\<rparr> of
                  None \<Rightarrow> (False, li)
                | Some clean \<Rightarrow> (trim input \<noteq> trim clean, li))))"

text \<open>The body of the \<^verbatim>\<open>catch\<close> block of \<^verbatim>\<open>sanitizeInput\<close> (``Hardened Fallback'').\<close>

definition hardened_fallback :: "string \<Rightarrow> string" where
  "hardened_fallback input =
     (let hardened =
            replace_ci [''onload='', ''onerror='', ''onclick=''] ''prevented='' 0
              (replace_ci [''data:''] ''[removed]'' 0
                 (replace_ci [''javascript:''] ''[removed]'' 0 input))
      in trim (strip_tags False hardened))"

text \<open>
  \<^verbatim>\<open>sanitizeInput\<close>. The fallback is the handler of the \<^verbatim>\<open>try\<close> block: it runs when
  the primitive throws. With no primitive the \<^verbatim>\<open>if\<close> is skipped, nothing is thrown, and
  control reaches the last \<^verbatim>\<open>return\<close>.
\<close>

definition sanitizeInput :: "sanitizer option \<Rightarrow> string \<Rightarrow> string" where
  "sanitizeInput internalSanitize input =
     (if input = [] then []
      else case internalSanitize of
             Some f \<Rightarrow>
               (case f input \<lparr>ALLOWED_TAGS = [], ALLOWED_ATTR = [], KEEP_CONTENT = Some True\<rparr> of
                  Some clean \<Rightarrow> trim clean
                | None \<Rightarrow> hardened_fallback input)
           | None \<Rightarrow> trim input)"

section \<open>Values of the language\<close>

text \<open>
  A thrown exception is a value. \<open>Error\<close> carries the message the class gives it; the
  errors the runtime throws carry none, their text being the engine's.
\<close>

datatype error = Error string | RangeError | TypeError | SyntaxError

text \<open>A time value in milliseconds, or the invalid date (\<^verbatim>\<open>NaN\<close>).\<close>

datatype date = Instant int | InvalidDate

text \<open>
  A value of type \<^verbatim>\<open>any\<close>: what \<^verbatim>\<open>JSON.parse\<close> returns, and besides \<^verbatim>\<open>undefined\<close>
  and \<^verbatim>\<open>Date\<close> objects, which the class itself creates. An object is its class and the
  list of its own enumerable properties, in the order the language enumerates them
  (array indices first, ascending, then the other keys as they were created), no key
  twice. The elements of an array are its index properties; the arrays here are dense, as
  \<^verbatim>\<open>JSON.parse\<close> makes them. No property is a function, and no object is in two places
  at once: a value is a tree, as \<^verbatim>\<open>JSON.parse\<close> makes it.
\<close>

datatype objclass = Plain | Array | DateObject date

datatype jsval =
    JUndefined
  | JNull
  | JBool bool
  | JNumber real
  | JString string
  | JObject objclass "(string \<times> jsval) list"

type_synonym props = "(string \<times> jsval) list"

fun truthy :: "jsval \<Rightarrow> bool" where
  "truthy JUndefined = False"
| "truthy JNull = False"
| "truthy (JBool b) = b"
| "truthy (JNumber x) = (x \<noteq> 0)"
| "truthy (JString s) = (s \<noteq> [])"
| "truthy (JObject c ps) = True"

fun nullish :: "jsval \<Rightarrow> bool" where
  "nullish JUndefined = True"
| "nullish JNull = True"
| "nullish _ = False"

text \<open>\<^verbatim>\<open>v && typeof v === "string"\<close>.\<close>

fun nonempty_string :: "jsval \<Rightarrow> bool" where
  "nonempty_string (JString s) = (s \<noteq> [])"
| "nonempty_string _ = False"

text \<open>The value of an own property; \<^verbatim>\<open>undefined\<close> when the object has none of that name.\<close>

definition own_value :: "props \<Rightarrow> string \<Rightarrow> jsval" where
  "own_value ps k = (case map_of ps k of None \<Rightarrow> JUndefined | Some v \<Rightarrow> v)"

text \<open>
  \<^verbatim>\<open>v.k\<close> for a value \<open>v\<close> that is not nullish and a name \<open>k\<close> that no prototype
  defines (every name the class reads is such): the own property of an object, and
  \<^verbatim>\<open>undefined\<close> on a primitive. It is also \<^verbatim>\<open>v?.k\<close> for every \<open>v\<close>.
\<close>

fun get_member :: "jsval \<Rightarrow> string \<Rightarrow> jsval" where
  "get_member (JObject c ps) k = own_value ps k"
| "get_member _ k = JUndefined"

text \<open>\<^verbatim>\<open>String(n)\<close> for an integer, and \<^verbatim>\<open>String(n).padStart(2, "0")\<close>.\<close>

fun show_nat :: "nat \<Rightarrow> string" where
  "show_nat n =
     (if n < 10 then [char_of (48 + n)]
      else show_nat (n div 10) @ [char_of (48 + n mod 10)])"

definition show_int :: "int \<Rightarrow> string" where
  "show_int i = (if i < 0 then CHR ''-'' # show_nat (nat (- i)) else show_nat (nat i))"

definition pad2 :: "nat \<Rightarrow> string" where
  "pad2 n = (if n < 10 then CHR ''0'' # show_nat n else show_nat n)"

text \<open>
  The array index a key denotes, if any: a canonical decimal numeral below
  \<open>2\<^sup>3\<^sup>2 - 1\<close>.
\<close>

definition index_of :: "string \<Rightarrow> nat option" where
  "index_of k =
     (if k = [] \<or> \<not> list_all is_digit k then None
      else if 1 < length k \<and> hd k = CHR ''0'' then None
      else (let n = foldl (\<lambda>a c. 10 * a + (of_char c - 48)) 0 k
            in if n < 4294967295 then Some n else None))"

text \<open>
  A new property enters the enumeration order: an array index before the first key that
  is no index or a larger one, any other key at the end.
\<close>

fun insert_index :: "nat \<Rightarrow> string \<Rightarrow> jsval \<Rightarrow> props \<Rightarrow> props" where
  "insert_index n k v [] = [(k, v)]"
| "insert_index n k v ((k', v') # ps) =
     (case index_of k' of
        Some m \<Rightarrow> if m < n then (k', v') # insert_index n k v ps else (k, v) # (k', v') # ps
      | None \<Rightarrow> (k, v) # (k', v') # ps)"

text \<open>Defining the own property \<open>k\<close>: an existing one keeps its place.\<close>

definition put :: "string \<Rightarrow> jsval \<Rightarrow> props \<Rightarrow> props" where
  "put k v ps =
     (if map_of ps k \<noteq> None then AList.update k v ps
      else case index_of k of
             None \<Rightarrow> ps @ [(k, v)]
           | Some n \<Rightarrow> insert_index n k v ps)"

text \<open>
  \<^verbatim>\<open>{ ...v }\<close>: the own enumerable properties of a value. A string has one per code
  unit; the other primitives have none.
\<close>

fun own_props :: "jsval \<Rightarrow> props" where
  "own_props (JObject c ps) = ps"
| "own_props (JString s) = zip (map show_nat [0..<length s]) (map (\<lambda>c. JString [c]) s)"
| "own_props _ = []"

text \<open>\<^verbatim>\<open>{ ...a, ...b }\<close> on the property lists of \<open>a\<close> and \<open>b\<close>.\<close>

definition spread :: "props \<Rightarrow> props \<Rightarrow> props" where
  "spread a b = fold (\<lambda>(k, v). put k v) b a"

text \<open>
  The two objects of an entity, \<^verbatim>\<open>_metadata\<close> and \<^verbatim>\<open>_settings\<close>, are written under keys
  the caller chooses, and the key \<^verbatim>\<open>__proto__\<close> can replace their prototype. So each is
  held as its own properties together with its prototype: \<open>JUndefined\<close> stands for
  \<^verbatim>\<open>Object.prototype\<close>, which every object the language makes from a literal or a spread
  has; the other values are \<open>JNull\<close> and an object from the caller, whose own prototype
  is the standard one. \<^verbatim>\<open>o.k\<close> is then the own property if there is one, else the
  property of the prototype.
\<close>

definition read_property :: "props \<Rightarrow> jsval \<Rightarrow> string \<Rightarrow> jsval" where
  "read_property ps proto k = (case map_of ps k of Some v \<Rightarrow> v | None \<Rightarrow> get_member proto k)"

text \<open>
  \<^verbatim>\<open>o[k] = v\<close> on such an object. Every key but \<^verbatim>\<open>__proto__\<close> defines or updates an own
  property. So does \<^verbatim>\<open>__proto__\<close> when the object has an own property of that name, or
  its prototype has one, or its prototype is \<^verbatim>\<open>null\<close>; otherwise the assignment reaches
  the accessor of \<^verbatim>\<open>Object.prototype\<close>, which installs an object or \<^verbatim>\<open>null\<close> as the
  prototype and ignores any other value.
\<close>

definition assign :: "string \<Rightarrow> jsval \<Rightarrow> props \<times> jsval \<Rightarrow> props \<times> jsval" where
  "assign k v o' =
     (case o' of
        (ps, proto) \<Rightarrow>
          if k \<noteq> ''__proto__'' \<or> map_of ps k \<noteq> None \<or> proto = JNull
             \<or> map_of (own_props proto) k \<noteq> None
          then (put k v ps, proto)
          else (ps, case v of JObject c qs \<Rightarrow> v | JNull \<Rightarrow> JNull | _ \<Rightarrow> proto))"

text \<open>
  \<^verbatim>\<open>v.k = x\<close> in strict code (a module is strict), for a name that is not
  \<^verbatim>\<open>__proto__\<close>: an object gets the property, a primitive makes the assignment throw.
\<close>

fun set_member :: "jsval \<Rightarrow> string \<Rightarrow> jsval \<Rightarrow> error + jsval" where
  "set_member (JObject c ps) k x = Inr (JObject c (put k x ps))"
| "set_member _ k x = Inl TypeError"

section \<open>The environment\<close>

text \<open>
  What the code takes from its environment: the UUID generator (\<open>Inl\<close> is the text of
  the error it throws), the SHA-256 digest in base 64 of an identifier, the parser behind
  \<^verbatim>\<open>new Date(string)\<close>, \<^verbatim>\<open>toISOString\<close> on a valid time value, the local calendar
  fields \<^verbatim>\<open>getFullYear()\<close>, \<^verbatim>\<open>getMonth()\<close>, \<^verbatim>\<open>getDate()\<close> of a valid time value,
  \<^verbatim>\<open>JSON.parse\<close> (\<open>None\<close> when it throws), the text of a number and the text
  \<^verbatim>\<open>Date.prototype.toString\<close> gives a valid time value. The clock is not part of it:
  every operation that evaluates \<^verbatim>\<open>new Date()\<close> takes the reading as an argument.
\<close>

record host =
  uuidv4 :: "string + string"
  sha256_base64 :: "string \<Rightarrow> string"
  parse_date :: "string \<Rightarrow> date"
  iso_string :: "int \<Rightarrow> string"
  local_fields :: "int \<Rightarrow> int \<times> nat \<times> nat"
  json_parse :: "string \<Rightarrow> jsval option"
  number_text :: "real \<Rightarrow> string"
  date_text :: "int \<Rightarrow> string"

text \<open>
  \<^verbatim>\<open>ToString\<close>, as \<^verbatim>\<open>RegExp.prototype.test\<close> applies it to its argument. An object is
  converted by its \<^verbatim>\<open>toString\<close> method, then by \<^verbatim>\<open>valueOf\<close>; an own property of that
  name, not being a function, hides the inherited method. So a plain object or an array
  with an own \<^verbatim>\<open>toString\<close> has no usable method and the conversion throws; a date with
  one falls back to the number \<^verbatim>\<open>valueOf\<close> returns. The inherited method of an array
  joins the texts of its elements, an element \<^verbatim>\<open>undefined\<close> or \<^verbatim>\<open>null\<close> giving the
  empty text, unless an own \<^verbatim>\<open>join\<close> hides the joiner.
\<close>

fun to_string :: "host \<Rightarrow> jsval \<Rightarrow> error + string"
  and element_texts :: "host \<Rightarrow> props \<Rightarrow> error + string list" where
  "to_string h JUndefined = Inr ''undefined''"
| "to_string h JNull = Inr ''null''"
| "to_string h (JBool b) = Inr (if b then ''true'' else ''false'')"
| "to_string h (JNumber x) = Inr (number_text h x)"
| "to_string h (JString s) = Inr s"
| "to_string h (JObject c ps) =
     (if map_of ps ''toString'' \<noteq> None then
        (case c of
           DateObject d \<Rightarrow>
             (if map_of ps ''valueOf'' \<noteq> None then Inl TypeError
              else Inr (case d of Instant t \<Rightarrow> number_text h (real_of_int t)
                               | InvalidDate \<Rightarrow> ''NaN''))
         | _ \<Rightarrow> Inl TypeError)
      else
        (case c of
           Plain \<Rightarrow> Inr ''[object Object]''
         | DateObject d \<Rightarrow>
             Inr (case d of Instant t \<Rightarrow> date_text h t | InvalidDate \<Rightarrow> ''Invalid Date'')
         | Array \<Rightarrow>
             (if map_of ps ''join'' \<noteq> None then Inr ''[object Array]''
              else case element_texts h ps of
                     Inl e \<Rightarrow> Inl e
                   | Inr ts \<Rightarrow> Inr (concat (case ts of [] \<Rightarrow> [] | t # ts' \<Rightarrow> t # map (\<lambda>x. '','' @ x) ts')))))"
| "element_texts h [] = Inr []"
| "element_texts h ((k, v) # ps) =
     (if index_of k = None then element_texts h ps
      else case (if nullish v then Inr [] else to_string h v) of
             Inl e \<Rightarrow> Inl e
           | Inr t \<Rightarrow> (case element_texts h ps of Inl e \<Rightarrow> Inl e | Inr ts \<Rightarrow> Inr (t # ts)))"

text \<open>\<^verbatim>\<open>TimeClip(ToNumber(x))\<close> for a number.\<close>

definition time_clip :: "real \<Rightarrow> date" where
  "time_clip x =
     (if \<bar>x\<bar> > 8640000000000000 then InvalidDate
      else Instant (if 0 \<le> x then \<lfloor>x\<rfloor> else \<lceil>x\<rceil>))"

text \<open>
  \<^verbatim>\<open>new Date(v)\<close>: a date is copied, a string is parsed, another primitive is taken as a
  number, and any other object is converted to a primitive first, which for the objects
  here is its text.
\<close>

fun new_Date :: "host \<Rightarrow> jsval \<Rightarrow> error + date" where
  "new_Date h (JObject (DateObject d) ps) = Inr d"
| "new_Date h (JString s) = Inr (parse_date h s)"
| "new_Date h (JNumber x) = Inr (time_clip x)"
| "new_Date h (JBool b) = Inr (Instant (if b then 1 else 0))"
| "new_Date h JNull = Inr (Instant 0)"
| "new_Date h JUndefined = Inr InvalidDate"
| "new_Date h (JObject c ps) =
     (case to_string h (JObject c ps) of
        Inl e \<Rightarrow> Inl e
      | Inr s \<Rightarrow> Inr (parse_date h s))"

text \<open>
  What \<^verbatim>\<open>JSON.parse(JSON.stringify(v))\<close> returns: a property whose value is
  \<^verbatim>\<open>undefined\<close> is left out, an element \<^verbatim>\<open>undefined\<close> becomes \<^verbatim>\<open>null\<close>, an array
  keeps its elements only. \<open>JUndefined\<close> as a result means that nothing is written.
  A date is written by \<^verbatim>\<open>Date.prototype.toJSON\<close>: \<^verbatim>\<open>null\<close> when \<^verbatim>\<open>valueOf\<close> gives
  no finite number, else what \<^verbatim>\<open>toISOString\<close> returns. Own properties of these names,
  not being functions, hide the methods: with an own \<^verbatim>\<open>toJSON\<close> the date is written as
  the plain object of its own properties; with an own \<^verbatim>\<open>valueOf\<close> the text of the date
  stands in for the number, and there is none under an own \<^verbatim>\<open>toString\<close>; an own
  \<^verbatim>\<open>toISOString\<close> makes the call throw.
\<close>

fun json_image :: "host \<Rightarrow> jsval \<Rightarrow> error + jsval"
  and image_props :: "host \<Rightarrow> props \<Rightarrow> error + props"
  and image_elements :: "host \<Rightarrow> props \<Rightarrow> error + props" where
  "json_image h (JObject c ps) =
     (case c of
        Plain \<Rightarrow>
          (case image_props h ps of Inl e \<Rightarrow> Inl e | Inr qs \<Rightarrow> Inr (JObject Plain qs))
      | Array \<Rightarrow>
          (case image_elements h ps of Inl e \<Rightarrow> Inl e | Inr qs \<Rightarrow> Inr (JObject Array qs))
      | DateObject d \<Rightarrow>
          (if map_of ps ''toJSON'' \<noteq> None then
             (case image_props h ps of Inl e \<Rightarrow> Inl e | Inr qs \<Rightarrow> Inr (JObject Plain qs))
           else if map_of ps ''valueOf'' \<noteq> None \<and> map_of ps ''toString'' \<noteq> None then
             Inl TypeError
           else if map_of ps ''valueOf'' = None \<and> d = InvalidDate then Inr JNull
           else if map_of ps ''toISOString'' \<noteq> None then Inl TypeError
           else (case d of
                   InvalidDate \<Rightarrow> Inl RangeError
                 | Instant t \<Rightarrow> Inr (JString (iso_string h t)))))"
| "json_image h JUndefined = Inr JUndefined"
| "json_image h JNull = Inr JNull"
| "json_image h (JBool b) = Inr (JBool b)"
| "json_image h (JNumber x) = Inr (JNumber x)"
| "json_image h (JString s) = Inr (JString s)"
| "image_props h [] = Inr []"
| "image_props h ((k, v) # ps) =
     (case json_image h v of
        Inl e \<Rightarrow> Inl e
      | Inr x \<Rightarrow>
          (case image_props h ps of
             Inl e \<Rightarrow> Inl e
           | Inr qs \<Rightarrow> Inr (if x = JUndefined then qs else (k, x) # qs)))"
| "image_elements h [] = Inr []"
| "image_elements h ((k, v) # ps) =
     (if index_of k = None then image_elements h ps
      else case json_image h v of
             Inl e \<Rightarrow> Inl e
           | Inr x \<Rightarrow>
               (case image_elements h ps of
                  Inl e \<Rightarrow> Inl e
                | Inr qs \<Rightarrow> Inr ((k, if x = JUndefined then JNull else x) # qs)))"

section \<open>The data of \<^verbatim>\<open>types.ts\<close> and \<^verbatim>\<open>enums.ts\<close>\<close>

text \<open>
  The typed arguments of the methods. The metadata and the settings themselves are
  open-ended objects that the factories fill from untyped payloads, so the entity holds
  them as property lists; a typed argument is stored as the object it is.
\<close>

datatype UserGenderOptions = Male | Female | Other

fun gender_value :: "UserGenderOptions \<Rightarrow> jsval" where
  "gender_value Male = JString ''Male''"
| "gender_value Female = JString ''Female''"
| "gender_value Other = JString ''Other''"

record FullName =
  first_name :: string
  last_name :: string
  middle_name :: "string option"
  suffix :: "string option"

record Coordinates =
  latitude :: real
  longitude :: real

record Address =
  country :: "string option"
  city :: "string option"
  region :: "string option"
  area :: "string option"
  street :: "string option"
  building :: "string option"
  zip :: "string option"
  country_code :: "string option"
  coordinates :: "Coordinates option"

text \<open>An optional property of a typed argument: present when the field is.\<close>

definition optional :: "string \<Rightarrow> string option \<Rightarrow> props" where
  "optional k x = (case x of None \<Rightarrow> [] | Some s \<Rightarrow> [(k, JString s)])"

definition FullName_value :: "FullName \<Rightarrow> jsval" where
  "FullName_value n =
     JObject Plain
       ([(''first_name'', JString (first_name n)), (''last_name'', JString (last_name n))]
        @ optional ''middle_name'' (middle_name n) @ optional ''suffix'' (suffix n))"

definition Address_value :: "Address \<Rightarrow> jsval" where
  "Address_value a =
     JObject Plain
       (optional ''country'' (country a) @ optional ''city'' (city a)
        @ optional ''region'' (region a) @ optional ''area'' (area a)
        @ optional ''street'' (street a) @ optional ''building'' (building a)
        @ optional ''zip'' (zip a) @ optional ''country_code'' (country_code a)
        @ (case coordinates a of
             None \<Rightarrow> []
           | Some c \<Rightarrow>
               [(''coordinates'',
                 JObject Plain [(''latitude'', JNumber (latitude c)),
                                (''longitude'', JNumber (longitude c))])]))"

text \<open>
  The fields of the class. \<^verbatim>\<open>id\<close> is \<open>user_id\<close> here and the protected fields bear the
  names of their getters. The display name is a value: \<^verbatim>\<open>fromSupabase\<close> takes it from a
  bag of \<^verbatim>\<open>any\<close>. The metadata and the settings are the own properties of the two
  objects the constructor makes, each with the prototype of its object.
\<close>

record MajikUser =
  user_id :: string
  email :: string
  displayName :: jsval
  hash :: string
  metadata :: props
  metadata_proto :: jsval
  settings :: props
  settings_proto :: jsval
  createdAt :: date
  lastUpdate :: date

text \<open>The argument of the constructor (\<^verbatim>\<open>MajikUserData\<close>), as the factories build it.\<close>

record MajikUserData =
  data_id :: string
  data_email :: string
  data_displayName :: jsval
  data_hash :: string
  data_metadata :: jsval
  data_settings :: jsval
  data_createdAt :: date
  data_lastUpdate :: date

text \<open>
  What a mutating method does: it returns, leaving the entity given, or it throws,
  leaving the entity given, which is the one it was called on unless the method had
  already written to it.
\<close>

datatype outcome = Returns MajikUser | Throws error MajikUser

fun returned :: "outcome \<Rightarrow> bool" where
  "returned (Returns u) = True"
| "returned (Throws e u) = False"

fun entity :: "outcome \<Rightarrow> MajikUser" where
  "entity (Returns u) = u"
| "entity (Throws e u) = u"

section \<open>The class of \<^verbatim>\<open>core/majik-user.ts\<close>\<close>

subsection \<open>Formats\<close>

text \<open>
  \<^verbatim>\<open>/^[^\s@]+@[^\s@]+\.[^\s@]+$/\<close>: no white space, exactly one \<^verbatim>\<open>@\<close>, something before it,
  and after it a dot that is neither the first nor the last code unit.
\<close>

definition email_shape :: "string \<Rightarrow> bool" where
  "email_shape s =
     (let local = takeWhile (\<lambda>c. c \<noteq> CHR ''@'') s;
          rest = drop (length local) s;
          domain = tl rest
      in local \<noteq> [] \<and> rest \<noteq> [] \<and> list_all (\<lambda>c. \<not> is_space c) s
         \<and> CHR ''@'' \<notin> set domain \<and> CHR ''.'' \<in> set (butlast (tl domain)))"


text \<open>\<^verbatim>\<open>/^\d{4}-\d{2}-\d{2}$/\<close>.\<close>

definition birthdate_shape :: "string \<Rightarrow> bool" where
  "birthdate_shape s =
     (length s = 10 \<and> list_all is_digit (take 4 s) \<and> take 1 (drop 4 s) = ''-''
      \<and> list_all is_digit (take 2 (drop 5 s)) \<and> take 1 (drop 7 s) = ''-''
      \<and> list_all is_digit (drop 8 s))"


text \<open>\<^verbatim>\<open>dateToYYYYMMDD\<close> of \<^verbatim>\<open>utils.ts\<close>; \<^verbatim>\<open>getMonth()\<close> counts from 0.\<close>

definition dateToYYYYMMDD :: "host \<Rightarrow> date \<Rightarrow> error + string" where
  "dateToYYYYMMDD h d =
     (case d of
        InvalidDate \<Rightarrow> Inl (Error ''Invalid Date object'')
      | Instant t \<Rightarrow>
          (case local_fields h t of
             (y, m, dd) \<Rightarrow> Inr (show_int y @ ''-'' @ pad2 (m + 1) @ ''-'' @ pad2 dd)))"


subsection \<open>Helpers and the constructor\<close>

text \<open>The constructor: the two objects are copied by a spread, the dates by \<^verbatim>\<open>new Date\<close>.\<close>

definition new_MajikUser :: "MajikUserData \<Rightarrow> MajikUser" where
  "new_MajikUser data =
     \<lparr>user_id = data_id data, email = data_email data,
      displayName = data_displayName data, hash = data_hash data,
      metadata = own_props (data_metadata data), metadata_proto = JUndefined,
      settings = own_props (data_settings data), settings_proto = JUndefined,
      createdAt = data_createdAt data, lastUpdate = data_lastUpdate data\<rparr>"

text \<open>\<^verbatim>\<open>this._metadata.k\<close> and \<^verbatim>\<open>this._settings.k\<close>.\<close>

definition metadata_value :: "MajikUser \<Rightarrow> string \<Rightarrow> jsval" where
  "metadata_value u k = read_property (metadata u) (metadata_proto u) k"

definition settings_value :: "MajikUser \<Rightarrow> string \<Rightarrow> jsval" where
  "settings_value u k = read_property (settings u) (settings_proto u) k"

definition updateTimestamp :: "int \<Rightarrow> MajikUser \<Rightarrow> MajikUser" where
  "updateTimestamp now u = u\<lparr>lastUpdate := Instant now\<rparr>"

definition validateEmail :: "string \<Rightarrow> error + unit" where
  "validateEmail e = (if email_shape e then Inr () else Inl (Error ''Invalid email format''))"

definition generateID :: "host \<Rightarrow> error + string" where
  "generateID h =
     (case uuidv4 h of
        Inl e \<Rightarrow> Inl (Error (''Failed to generate user ID: '' @ e))
      | Inr genID \<Rightarrow> Inr genID)"

definition hashID :: "host \<Rightarrow> string \<Rightarrow> string" where
  "hashID h i = sha256_base64 h i"

text \<open>The string a value is, once \<^verbatim>\<open>typeof\<close> has said that it is one.\<close>

fun string_of :: "jsval \<Rightarrow> string" where
  "string_of (JString s) = s"
| "string_of _ = []"

text \<open>\<^verbatim>\<open>a || b || ... || d\<close> and \<^verbatim>\<open>a ?? d\<close>.\<close>

fun first_truthy :: "jsval list \<Rightarrow> jsval \<Rightarrow> jsval" where
  "first_truthy [] d = d"
| "first_truthy (x # xs) d = (if truthy x then x else first_truthy xs d)"

definition coalesce :: "jsval \<Rightarrow> jsval \<Rightarrow> jsval" where
  "coalesce a d = (if nullish a then d else a)"

text \<open>Truthiness of an optional string of a typed record.\<close>

definition given :: "string option \<Rightarrow> bool" where
  "given x = (case x of None \<Rightarrow> False | Some s \<Rightarrow> s \<noteq> [])"

subsection \<open>Factories\<close>

text \<open>The two object literals of \<^verbatim>\<open>initialize\<close>, the second also in \<^verbatim>\<open>fromJSON\<close>.\<close>

definition unverified :: jsval where
  "unverified =
     JObject Plain [(''email_verified'', JBool False), (''phone_verified'', JBool False),
                    (''identity_verified'', JBool False)]"

definition default_settings :: jsval where
  "default_settings =
     JObject Plain [(''notifications'', JBool True),
                    (''system'', JObject Plain [(''isRestricted'', JBool False)])]"

text \<open>\<^verbatim>\<open>initialize\<close>; \<open>t1\<close> and \<open>t2\<close> are the readings of its two \<^verbatim>\<open>new Date()\<close>.\<close>

definition initialize ::
  "host \<Rightarrow> int \<Rightarrow> int \<Rightarrow> string \<Rightarrow> string \<Rightarrow> string option \<Rightarrow> error + MajikUser" where
  "initialize h t1 t2 email' displayName' ident =
     (if email' = [] then Inl (Error ''Email cannot be empty'')
      else if displayName' = [] then Inl (Error ''Display name cannot be empty'')
      else
        case (case ident of
                None \<Rightarrow> generateID h
              | Some i \<Rightarrow> if trim i = [] then generateID h else Inr i) of
          Inl e \<Rightarrow> Inl e
        | Inr userID \<Rightarrow>
            (let instance = new_MajikUser
                   \<lparr>data_id = userID, data_email = email',
                    data_displayName = JString displayName',
                    data_hash = hashID h userID,
                    data_metadata = JObject Plain [(''verification'', unverified)],
                    data_settings = default_settings,
                    data_createdAt = Instant t1, data_lastUpdate = Instant t2\<rparr>
             in case validateEmail email' of
                  Inl e \<Rightarrow> Inl e
                | Inr _ \<Rightarrow> Inr instance))"

text \<open>
  \<^verbatim>\<open>fromJSON\<close>. A string is parsed first; reading \<^verbatim>\<open>data.id\<close> of a nullish
  \<open>data\<close> throws. \<open>t1\<close> and \<open>t2\<close> are the readings of the clock used when a
  timestamp is falsy.
\<close>

definition fromJSON :: "host \<Rightarrow> int \<Rightarrow> int \<Rightarrow> jsval \<Rightarrow> error + MajikUser" where
  "fromJSON h t1 t2 json =
     (case (case json of
              JString text \<Rightarrow>
                (case json_parse h text of None \<Rightarrow> Inl SyntaxError | Some d \<Rightarrow> Inr d)
            | _ \<Rightarrow> Inr json) of
        Inl e \<Rightarrow> Inl e
      | Inr data \<Rightarrow>
          if nullish data then Inl TypeError
          else if \<not> nonempty_string (get_member data ''id'') then
            Inl (Error ''Invalid user data: missing or invalid id'')
          else if \<not> nonempty_string (get_member data ''email'') then
            Inl (Error ''Invalid user data: missing or invalid email'')
          else if \<not> nonempty_string (get_member data ''displayName'') then
            Inl (Error ''Invalid user data: missing or invalid displayName'')
          else if \<not> nonempty_string (get_member data ''hash'') then
            Inl (Error ''Invalid user data: missing or invalid hash'')
          else
            case (if truthy (get_member data ''createdAt'')
                  then new_Date h (get_member data ''createdAt'') else Inr (Instant t1)) of
              Inl e \<Rightarrow> Inl e
            | Inr created \<Rightarrow>
                (case (if truthy (get_member data ''lastUpdate'')
                       then new_Date h (get_member data ''lastUpdate'') else Inr (Instant t2)) of
                   Inl e \<Rightarrow> Inl e
                 | Inr updated \<Rightarrow>
                     Inr (new_MajikUser
                       \<lparr>data_id = string_of (get_member data ''id''),
                        data_email = string_of (get_member data ''email''),
                        data_displayName = get_member data ''displayName'',
                        data_hash = string_of (get_member data ''hash''),
                        data_metadata =
                          (if truthy (get_member data ''metadata'')
                           then get_member data ''metadata'' else JObject Plain []),
                        data_settings =
                          (if truthy (get_member data ''settings'')
                           then get_member data ''settings'' else default_settings),
                        data_createdAt = created, data_lastUpdate = updated\<rparr>)))"

text \<open>
  The record \<^verbatim>\<open>fromSupabase\<close> reads, with the properties it uses. The type gives
  strings to all but \<^verbatim>\<open>user_metadata\<close> and \<^verbatim>\<open>app_metadata\<close>, which are bags of
  \<^verbatim>\<open>any\<close>; the factory guards both against being absent.
\<close>

record SupabaseUser =
  sb_id :: string
  sb_email :: "string option"
  sb_user_metadata :: "props option"
  sb_app_metadata :: "props option"
  sb_created_at :: string
  sb_updated_at :: "string option"
  sb_email_confirmed_at :: "string option"
  sb_phone_confirmed_at :: "string option"

text \<open>\<^verbatim>\<open>bag?.k\<close> for one of the two bags.\<close>

definition bag_value :: "props option \<Rightarrow> string \<Rightarrow> jsval" where
  "bag_value bag k = (case bag of None \<Rightarrow> JUndefined | Some ps \<Rightarrow> own_value ps k)"

text \<open>
  The part of \<^verbatim>\<open>fromSupabase\<close> that maps \<^verbatim>\<open>user_metadata\<close> to the metadata: each
  triple is one guarded assignment, in the order of the source.
\<close>

definition supabase_metadata :: "SupabaseUser \<Rightarrow> props" where
  "supabase_metadata sb =
     (let um = bag_value (sb_user_metadata sb);
          base =
            [(''verification'',
              JObject Plain
                [(''email_verified'', JBool (given (sb_email_confirmed_at sb))),
                 (''phone_verified'', JBool (given (sb_phone_confirmed_at sb))),
                 (''identity_verified'', JBool False)])]
      in if sb_user_metadata sb = None then base
         else fold (\<lambda>(guard, k, v) m. if guard then put k v m else m)
           [(truthy (um ''first_name'') \<or> truthy (um ''family_name''), ''name'',
               JObject Plain
                 [(''first_name'', first_truthy [um ''first_name''] (JString [])),
                  (''last_name'', first_truthy [um ''family_name''] (JString [])),
                  (''middle_name'', um ''middle_name''),
                  (''suffix'', um ''suffix'')]),
            (truthy (um ''picture'') \<or> truthy (um ''avatar_url''), ''picture'',
               first_truthy [um ''picture''] (um ''avatar_url'')),
            (truthy (um ''bio''), ''bio'', um ''bio''),
            (truthy (um ''phone''), ''phone'', um ''phone''),
            (truthy (um ''gender''), ''gender'', um ''gender''),
            (truthy (um ''birthdate''), ''birthdate'', um ''birthdate''),
            (truthy (um ''language''), ''language'', um ''language''),
            (truthy (um ''timezone''), ''timezone'', um ''timezone''),
            (truthy (um ''pronouns''), ''pronouns'', um ''pronouns''),
            (truthy (um ''address''), ''address'', um ''address''),
            (truthy (um ''social_links''), ''social_links'', um ''social_links''),
            (truthy (um ''company''), ''company'', um ''company'')]
           base)"

text \<open>
  The part that maps \<^verbatim>\<open>app_metadata\<close> to the settings. \<^verbatim>\<open>new Date\<close> of the
  restriction's end can throw; every other key of the bag is then assigned to the
  settings under its own name, \<^verbatim>\<open>system\<close> included, which replaces the object just
  built. The constructor copies the own properties of the result.
\<close>

definition supabase_settings :: "host \<Rightarrow> SupabaseUser \<Rightarrow> error + props" where
  "supabase_settings h sb =
     (let am = bag_value (sb_app_metadata sb)
      in case (if truthy (am ''restricted_until'')
               then (case new_Date h (am ''restricted_until'') of
                       Inl e \<Rightarrow> Inl e
                     | Inr d \<Rightarrow> Inr (JObject (DateObject d) []))
               else Inr JUndefined) of
           Inl e \<Rightarrow> Inl e
         | Inr until \<Rightarrow>
             Inr (fst (fold (\<lambda>(k, v) st.
                          if k = ''notifications'' \<or> k = ''is_restricted'' \<or> k = ''restricted_until''
                          then st else assign k v st)
                    (case sb_app_metadata sb of None \<Rightarrow> [] | Some ps \<Rightarrow> ps)
                    ([(''notifications'', coalesce (am ''notifications'') (JBool True)),
                      (''system'',
                       JObject Plain
                         [(''isRestricted'', coalesce (am ''is_restricted'') (JBool False)),
                          (''restrictedUntil'', until)])], JUndefined))))"

text \<open>\<^verbatim>\<open>fromSupabase\<close>; \<^verbatim>\<open>email.split("@")[0]\<close> is the part before the first \<^verbatim>\<open>@\<close>.\<close>

definition fromSupabase :: "host \<Rightarrow> SupabaseUser \<Rightarrow> error + MajikUser" where
  "fromSupabase h supabaseUser =
     (if sb_id supabaseUser = [] then Inl (Error ''Invalid Supabase user: missing id'')
      else if \<not> given (sb_email supabaseUser) then
        Inl (Error ''Invalid Supabase user: missing email'')
      else
        (let um = bag_value (sb_user_metadata supabaseUser);
             displayName' =
               first_truthy [um ''display_name'', um ''full_name'', um ''name'']
                 (JString (takeWhile (\<lambda>c. c \<noteq> CHR ''@'') (the (sb_email supabaseUser))))
         in case supabase_settings h supabaseUser of
              Inl e \<Rightarrow> Inl e
            | Inr settings' \<Rightarrow>
                Inr (new_MajikUser
                  \<lparr>data_id = sb_id supabaseUser, data_email = the (sb_email supabaseUser),
                   data_displayName = displayName',
                   data_hash = hashID h (sb_id supabaseUser),
                   data_metadata = JObject Plain (supabase_metadata supabaseUser),
                   data_settings = JObject Plain settings',
                   data_createdAt = parse_date h (sb_created_at supabaseUser),
                   data_lastUpdate =
                     parse_date h
                       (if given (sb_updated_at supabaseUser)
                        then the (sb_updated_at supabaseUser)
                        else sb_created_at supabaseUser)\<rparr>)))"

subsection \<open>Getters\<close>

text \<open>\<^verbatim>\<open>this._metadata.verification?.email_verified ?? false\<close>, and its two siblings.\<close>

definition isEmailVerified :: "MajikUser \<Rightarrow> jsval" where
  "isEmailVerified u =
     coalesce (get_member (metadata_value u ''verification'') ''email_verified'')
       (JBool False)"

definition isPhoneVerified :: "MajikUser \<Rightarrow> jsval" where
  "isPhoneVerified u =
     coalesce (get_member (metadata_value u ''verification'') ''phone_verified'')
       (JBool False)"

definition isIdentityVerified :: "MajikUser \<Rightarrow> jsval" where
  "isIdentityVerified u =
     coalesce (get_member (metadata_value u ''verification'') ''identity_verified'')
       (JBool False)"

subsection \<open>Setters\<close>

definition set_fullNameObject :: "MajikUser \<Rightarrow> int \<Rightarrow> FullName \<Rightarrow> outcome" where
  "set_fullNameObject u now nm =
     (if trim (first_name nm) = [] \<or> trim (last_name nm) = [] then
        Throws (Error ''Full name must contain first and last names'') u
      else Returns (updateTimestamp now
             (u\<lparr>metadata := put ''name'' (FullName_value nm) (metadata u)\<rparr>)))"

text \<open>
  An assignment to a property of \<^verbatim>\<open>this._metadata.verification\<close> changes the object
  that expression denotes, where it is: among the own properties of the metadata, or else
  among those of their prototype. \<open>ver\<close> is the object after the assignment.
\<close>

definition store_verification :: "jsval \<Rightarrow> MajikUser \<Rightarrow> MajikUser" where
  "store_verification ver u =
     (if map_of (metadata u) ''verification'' \<noteq> None
      then u\<lparr>metadata := AList.update ''verification'' ver (metadata u)\<rparr>
      else u\<lparr>metadata_proto :=
               (case metadata_proto u of
                  JObject c qs \<Rightarrow> JObject c (AList.update ''verification'' ver qs)
                | p \<Rightarrow> p)\<rparr>)"

text \<open>
  The email setter. The flag is cleared by an assignment to a property of
  \<^verbatim>\<open>verification\<close>, which throws when that value is a truthy primitive; the email is
  then already written.
\<close>

definition set_email :: "MajikUser \<Rightarrow> int \<Rightarrow> string \<Rightarrow> outcome" where
  "set_email u now v =
     (case validateEmail v of
        Inl e \<Rightarrow> Throws e u
      | Inr _ \<Rightarrow>
          (let u' = u\<lparr>email := v\<rparr>;
               ver = metadata_value u' ''verification''
           in if truthy ver then
                (case set_member ver ''email_verified'' (JBool False) of
                   Inl e \<Rightarrow> Throws e u'
                 | Inr ver' \<Rightarrow> Returns (updateTimestamp now (store_verification ver' u')))
              else Returns (updateTimestamp now u')))"

definition set_displayName :: "MajikUser \<Rightarrow> int \<Rightarrow> string \<Rightarrow> outcome" where
  "set_displayName u now v =
     (if v = [] \<or> length (trim v) = 0 then Throws (Error ''Display name cannot be empty'') u
      else Returns (updateTimestamp now (u\<lparr>displayName := JString v\<rparr>)))"

definition set_hash :: "MajikUser \<Rightarrow> int \<Rightarrow> string \<Rightarrow> outcome" where
  "set_hash u now v =
     (if v = [] \<or> length v = 0 then Throws (Error ''Hash cannot be empty'') u
      else Returns (updateTimestamp now (u\<lparr>hash := v\<rparr>)))"

subsection \<open>Metadata methods\<close>

definition setMetadata :: "MajikUser \<Rightarrow> int \<Rightarrow> string \<Rightarrow> jsval \<Rightarrow> MajikUser" where
  "setMetadata u now k v =
     (case assign k v (metadata u, metadata_proto u) of
        (ps, proto) \<Rightarrow> updateTimestamp now (u\<lparr>metadata := ps, metadata_proto := proto\<rparr>))"

text \<open>
  \<^verbatim>\<open>{ ...this._metadata, ...updates }\<close>, \<open>updates\<close> being the properties of the argument.
  The new object has the standard prototype.
\<close>

definition updateMetadata :: "MajikUser \<Rightarrow> int \<Rightarrow> props \<Rightarrow> MajikUser" where
  "updateMetadata u now updates =
     updateTimestamp now
       (u\<lparr>metadata := spread (metadata u) updates, metadata_proto := JUndefined\<rparr>)"

definition setName :: "MajikUser \<Rightarrow> int \<Rightarrow> FullName \<Rightarrow> MajikUser" where
  "setName u now nm = updateMetadata u now [(''name'', FullName_value nm)]"

definition setPicture :: "MajikUser \<Rightarrow> int \<Rightarrow> string \<Rightarrow> MajikUser" where
  "setPicture u now url = updateMetadata u now [(''picture'', JString url)]"

text \<open>
  \<^verbatim>\<open>setPhone\<close>: the metadata and the timestamp are written first, then the flag is
  cleared as in the email setter.
\<close>

definition setPhone :: "MajikUser \<Rightarrow> int \<Rightarrow> string \<Rightarrow> outcome" where
  "setPhone u now ph =
     (let u' = updateMetadata u now [(''phone'', JString ph)];
          ver = metadata_value u' ''verification''
      in if truthy ver then
           (case set_member ver ''phone_verified'' (JBool False) of
              Inl e \<Rightarrow> Throws e u'
            | Inr ver' \<Rightarrow> Returns (store_verification ver' u'))
         else Returns u')"

definition setAddress :: "MajikUser \<Rightarrow> int \<Rightarrow> Address \<Rightarrow> MajikUser" where
  "setAddress u now a = updateMetadata u now [(''address'', Address_value a)]"

text \<open>The argument of \<^verbatim>\<open>setBirthdate\<close>: a string or a \<^verbatim>\<open>Date\<close>.\<close>

datatype birthdate_arg = BString string | BDate date

definition setBirthdate :: "host \<Rightarrow> MajikUser \<Rightarrow> int \<Rightarrow> birthdate_arg \<Rightarrow> outcome" where
  "setBirthdate h u now b =
     (case b of
        BDate d \<Rightarrow>
          (if d = InvalidDate then Throws (Error ''Invalid Date object'') u
           else case dateToYYYYMMDD h d of
                  Inl e \<Rightarrow> Throws e u
                | Inr formatted \<Rightarrow>
                    Returns (updateMetadata u now [(''birthdate'', JString formatted)]))
      | BString str \<Rightarrow>
          (if \<not> birthdate_shape str then
             Throws (Error ''Invalid birthdate format. Use YYYY-MM-DD'') u
           else Returns (updateMetadata u now [(''birthdate'', JString str)])))"

definition setGender :: "MajikUser \<Rightarrow> int \<Rightarrow> UserGenderOptions \<Rightarrow> MajikUser" where
  "setGender u now g = updateMetadata u now [(''gender'', gender_value g)]"

definition setBio :: "MajikUser \<Rightarrow> int \<Rightarrow> string \<Rightarrow> MajikUser" where
  "setBio u now b = updateMetadata u now [(''bio'', JString b)]"

definition setLanguage :: "MajikUser \<Rightarrow> int \<Rightarrow> string \<Rightarrow> MajikUser" where
  "setLanguage u now l = updateMetadata u now [(''language'', JString l)]"

definition setTimezone :: "MajikUser \<Rightarrow> int \<Rightarrow> string \<Rightarrow> MajikUser" where
  "setTimezone u now tz = updateMetadata u now [(''timezone'', JString tz)]"

definition setSocialLink :: "MajikUser \<Rightarrow> int \<Rightarrow> string \<Rightarrow> string \<Rightarrow> MajikUser" where
  "setSocialLink u now platform url =
     (let socialLinks =
            put platform (JString url) (own_props (metadata_value u ''social_links''))
      in updateMetadata u now [(''social_links'', JObject Plain socialLinks)])"

definition removeSocialLink :: "MajikUser \<Rightarrow> int \<Rightarrow> string \<Rightarrow> MajikUser" where
  "removeSocialLink u now platform =
     (if \<not> truthy (metadata_value u ''social_links'') then u
      else
        (let socialLinks =
               AList.delete platform (own_props (metadata_value u ''social_links''))
         in updateMetadata u now [(''social_links'', JObject Plain socialLinks)]))"

subsection \<open>Verification methods\<close>

text \<open>\<^verbatim>\<open>this._metadata.verification || { ... }\<close>.\<close>

definition currentVerification :: "MajikUser \<Rightarrow> jsval" where
  "currentVerification u = first_truthy [metadata_value u ''verification''] unverified"

text \<open>
  The six methods: \<^verbatim>\<open>{ ...currentVerification, flag: b }\<close> is merged into the metadata.
\<close>

definition verifyEmail :: "MajikUser \<Rightarrow> int \<Rightarrow> MajikUser" where
  "verifyEmail u now =
     updateMetadata u now
       [(''verification'',
         JObject Plain (put ''email_verified'' (JBool True) (own_props (currentVerification u))))]"

definition unverifyEmail :: "MajikUser \<Rightarrow> int \<Rightarrow> MajikUser" where
  "unverifyEmail u now =
     updateMetadata u now
       [(''verification'',
         JObject Plain (put ''email_verified'' (JBool False) (own_props (currentVerification u))))]"

definition verifyPhone :: "MajikUser \<Rightarrow> int \<Rightarrow> MajikUser" where
  "verifyPhone u now =
     updateMetadata u now
       [(''verification'',
         JObject Plain (put ''phone_verified'' (JBool True) (own_props (currentVerification u))))]"

definition unverifyPhone :: "MajikUser \<Rightarrow> int \<Rightarrow> MajikUser" where
  "unverifyPhone u now =
     updateMetadata u now
       [(''verification'',
         JObject Plain (put ''phone_verified'' (JBool False) (own_props (currentVerification u))))]"

definition verifyIdentity :: "MajikUser \<Rightarrow> int \<Rightarrow> MajikUser" where
  "verifyIdentity u now =
     updateMetadata u now
       [(''verification'',
         JObject Plain (put ''identity_verified'' (JBool True) (own_props (currentVerification u))))]"

definition unverifyIdentity :: "MajikUser \<Rightarrow> int \<Rightarrow> MajikUser" where
  "unverifyIdentity u now =
     updateMetadata u now
       [(''verification'',
         JObject Plain (put ''identity_verified'' (JBool False) (own_props (currentVerification u))))]"

subsection \<open>Settings methods\<close>

definition setSetting :: "MajikUser \<Rightarrow> int \<Rightarrow> string \<Rightarrow> jsval \<Rightarrow> MajikUser" where
  "setSetting u now k v =
     (case assign k v (settings u, settings_proto u) of
        (ps, proto) \<Rightarrow> updateTimestamp now (u\<lparr>settings := ps, settings_proto := proto\<rparr>))"

text \<open>
  \<^verbatim>\<open>{ ...this._settings, ...updates, system: { ...this._settings.system,
  ...(updates.system || {}) } }\<close>, a new object with the standard prototype.
\<close>

definition updateSettings :: "MajikUser \<Rightarrow> int \<Rightarrow> props \<Rightarrow> MajikUser" where
  "updateSettings u now updates =
     updateTimestamp now
       (u\<lparr>settings :=
            put ''system''
              (JObject Plain
                 (spread (own_props (settings_value u ''system''))
                    (own_props (first_truthy [own_value updates ''system''] (JObject Plain [])))))
              (spread (settings u) updates),
          settings_proto := JUndefined\<rparr>)"

definition enableNotifications :: "MajikUser \<Rightarrow> int \<Rightarrow> MajikUser" where
  "enableNotifications u now = updateSettings u now [(''notifications'', JBool True)]"

definition disableNotifications :: "MajikUser \<Rightarrow> int \<Rightarrow> MajikUser" where
  "disableNotifications u now = updateSettings u now [(''notifications'', JBool False)]"

text \<open>The optional \<^verbatim>\<open>Date\<close> argument of \<^verbatim>\<open>restrict\<close>, as a value.\<close>

definition date_value :: "date option \<Rightarrow> jsval" where
  "date_value d = (case d of None \<Rightarrow> JUndefined | Some t \<Rightarrow> JObject (DateObject t) [])"

definition restrict :: "MajikUser \<Rightarrow> int \<Rightarrow> date option \<Rightarrow> MajikUser" where
  "restrict u now until =
     updateSettings u now
       [(''system'',
         JObject Plain [(''isRestricted'', JBool True), (''restrictedUntil'', date_value until)])]"

definition unrestrict :: "MajikUser \<Rightarrow> int \<Rightarrow> MajikUser" where
  "unrestrict u now =
     updateSettings u now
       [(''system'',
         JObject Plain [(''isRestricted'', JBool False), (''restrictedUntil'', JUndefined)])]"

subsection \<open>Validation and serialization\<close>






subsection \<open>The mutating operations as one step function\<close>

datatype operation =
    Op_set_fullNameObject FullName
  | Op_set_email string
  | Op_set_displayName string
  | Op_set_hash string
  | Op_setName FullName
  | Op_setPicture string
  | Op_setPhone string
  | Op_setAddress Address
  | Op_setBirthdate birthdate_arg
  | Op_setGender UserGenderOptions
  | Op_setBio string
  | Op_setLanguage string
  | Op_setTimezone string
  | Op_setSocialLink string string
  | Op_removeSocialLink string
  | Op_setMetadata string jsval
  | Op_updateMetadata props
  | Op_verifyEmail
  | Op_unverifyEmail
  | Op_verifyPhone
  | Op_unverifyPhone
  | Op_verifyIdentity
  | Op_unverifyIdentity
  | Op_setSetting string jsval
  | Op_updateSettings props
  | Op_enableNotifications
  | Op_disableNotifications
  | Op_restrict "date option"
  | Op_unrestrict

text \<open>One call on the entity, at the clock reading \<open>now\<close>.\<close>

fun perform :: "host \<Rightarrow> int \<Rightarrow> operation \<Rightarrow> MajikUser \<Rightarrow> outcome" where
  "perform h now (Op_set_fullNameObject nm) u = set_fullNameObject u now nm"
| "perform h now (Op_set_email v) u = set_email u now v"
| "perform h now (Op_set_displayName v) u = set_displayName u now v"
| "perform h now (Op_set_hash v) u = set_hash u now v"
| "perform h now (Op_setName nm) u = Returns (setName u now nm)"
| "perform h now (Op_setPicture url) u = Returns (setPicture u now url)"
| "perform h now (Op_setPhone ph) u = setPhone u now ph"
| "perform h now (Op_setAddress a) u = Returns (setAddress u now a)"
| "perform h now (Op_setBirthdate b) u = setBirthdate h u now b"
| "perform h now (Op_setGender g) u = Returns (setGender u now g)"
| "perform h now (Op_setBio b) u = Returns (setBio u now b)"
| "perform h now (Op_setLanguage l) u = Returns (setLanguage u now l)"
| "perform h now (Op_setTimezone tz) u = Returns (setTimezone u now tz)"
| "perform h now (Op_setSocialLink platform url) u = Returns (setSocialLink u now platform url)"
| "perform h now (Op_removeSocialLink platform) u = Returns (removeSocialLink u now platform)"
| "perform h now (Op_setMetadata k v) u = Returns (setMetadata u now k v)"
| "perform h now (Op_updateMetadata updates) u = Returns (updateMetadata u now updates)"
| "perform h now Op_verifyEmail u = Returns (verifyEmail u now)"
| "perform h now Op_unverifyEmail u = Returns (unverifyEmail u now)"
| "perform h now Op_verifyPhone u = Returns (verifyPhone u now)"
| "perform h now Op_unverifyPhone u = Returns (unverifyPhone u now)"
| "perform h now Op_verifyIdentity u = Returns (verifyIdentity u now)"
| "perform h now Op_unverifyIdentity u = Returns (unverifyIdentity u now)"
| "perform h now (Op_setSetting k v) u = Returns (setSetting u now k v)"
| "perform h now (Op_updateSettings updates) u = Returns (updateSettings u now updates)"
| "perform h now Op_enableNotifications u = Returns (enableNotifications u now)"
| "perform h now Op_disableNotifications u = Returns (disableNotifications u now)"
| "perform h now (Op_restrict until) u = Returns (restrict u now until)"
| "perform h now Op_unrestrict u = Returns (unrestrict u now)"

section \<open>Relations the properties are stated with\<close>

text \<open>\<^verbatim>\<open>a <= b\<close> on two dates: false as soon as one is invalid.\<close>

fun date_le :: "date \<Rightarrow> date \<Rightarrow> bool" where
  "date_le (Instant a) (Instant b) = (a \<le> b)"
| "date_le _ _ = False"

text \<open>
  The strict form \<^verbatim>\<open>YYYY-MM-DD\<close> in words: four digits, a hyphen, two digits, a hyphen,
  two digits, and nothing else.
\<close>

definition is_yyyy_mm_dd :: "string \<Rightarrow> bool" where
  "is_yyyy_mm_dd s =
     (\<exists>y m d. s = y @ ''-'' @ m @ ''-'' @ d \<and> length y = 4 \<and> length m = 2 \<and> length d = 2
        \<and> list_all is_digit y \<and> list_all is_digit m \<and> list_all is_digit d)"


text \<open>
  The object \<^verbatim>\<open>fromJSON\<close> reads its properties from (\<^verbatim>\<open>data\<close>), when the parser
  does not throw, and the date it makes of one of the two timestamps of that object, the
  clock reading being \<open>t\<close>.
\<close>

definition payload_of :: "host \<Rightarrow> jsval \<Rightarrow> jsval" where
  "payload_of h json =
     (case json of
        JString text \<Rightarrow> (case json_parse h text of None \<Rightarrow> JUndefined | Some d \<Rightarrow> d)
      | _ \<Rightarrow> json)"

definition payload_date :: "host \<Rightarrow> int \<Rightarrow> jsval \<Rightarrow> error + date" where
  "payload_date h t v = (if truthy v then new_Date h v else Inr (Instant t))"

text \<open>The string \<^verbatim>\<open>fromSupabase\<close> makes the date of the last update of.\<close>

definition supabase_updated :: "SupabaseUser \<Rightarrow> string" where
  "supabase_updated sb =
     (if given (sb_updated_at sb) then the (sb_updated_at sb) else sb_created_at sb)"


section \<open>Example data\<close>

text \<open>
  The text \<^verbatim>\<open>JSON.stringify\<close> writes for what \<^verbatim>\<open>toJSON\<close> returns on the restricted
  entity below, and what \<^verbatim>\<open>JSON.parse\<close> reads from it.
\<close>

definition example_stored_text :: string where
  \<open>example_stored_text =
     ''{"id":"user-1","email":"user@example.com","displayName":"Josef",''
     @ ''"hash":"xsKJ5J6cBbIUWGA4e3O8sY30P7CaHkpKlxPHbIi7VBs=",''
     @ ''"metadata":{"verification":{"email_verified":true,"phone_verified":true,''
     @ ''"identity_verified":false}},''
     @ ''"settings":{"notifications":true,"system":{"isRestricted":true,''
     @ ''"restrictedUntil":"2024-01-01T00:00:00.000Z"}},''
     @ ''"createdAt":"2020-01-01T00:00:00.000Z","lastUpdate":"2024-01-01T00:00:00.000Z"}''\<close>

definition example_stored_value :: jsval where
  "example_stored_value =
     JObject Plain
       [(''id'', JString ''user-1''), (''email'', JString ''user@example.com''),
        (''displayName'', JString ''Josef''),
        (''hash'', JString ''xsKJ5J6cBbIUWGA4e3O8sY30P7CaHkpKlxPHbIi7VBs=''),
        (''metadata'',
         JObject Plain
           [(''verification'',
             JObject Plain [(''email_verified'', JBool True), (''phone_verified'', JBool True),
                            (''identity_verified'', JBool False)])]),
        (''settings'',
         JObject Plain
           [(''notifications'', JBool True),
            (''system'',
             JObject Plain [(''isRestricted'', JBool True),
                            (''restrictedUntil'', JString ''2024-01-01T00:00:00.000Z'')])]),
        (''createdAt'', JString ''2020-01-01T00:00:00.000Z''),
        (''lastUpdate'', JString ''2024-01-01T00:00:00.000Z'')]"

text \<open>
  A host that agrees with a runtime in the UTC time zone on the identifiers, date strings,
  instants and texts the examples use: 1577836800000 is 2020-01-01 and 1704067200000 is
  2024-01-01, both at midnight UTC.
\<close>

definition example_host :: host where
  "example_host =
     \<lparr>uuidv4 = Inr ''110ec58a-a0f2-4ac4-8393-c866d813b8d1'',
      sha256_base64 =
        (\<lambda>i. if i = ''user-1'' then ''xsKJ5J6cBbIUWGA4e3O8sY30P7CaHkpKlxPHbIi7VBs=''
             else if i = ''sb-1'' then ''p/9QXYJQVxBUO4SAVCnljmUr7msbDPfb/2Bqh981Fr4=''
             else []),
      parse_date =
        (\<lambda>s. if s = ''2020-01-01T00:00:00.000Z'' then Instant 1577836800000
             else if s = ''2024-01-01T00:00:00.000Z'' then Instant 1704067200000
             else InvalidDate),
      iso_string =
        (\<lambda>t. if t = 1577836800000 then ''2020-01-01T00:00:00.000Z''
             else if t = 1704067200000 then ''2024-01-01T00:00:00.000Z''
             else []),
      local_fields = (\<lambda>t. if t = 1704067200000 then (2024, 0, 1) else (2020, 0, 1)),
      json_parse = (\<lambda>s. if s = example_stored_text then Some example_stored_value else None),
      number_text = (\<lambda>x. if x = 0 then ''0'' else []),
      date_text = (\<lambda>t. [])\<rparr>"

text \<open>An entity created in 2020 and last updated in 2024, with email and phone verified.\<close>

definition example_user :: MajikUser where
  "example_user =
     \<lparr>user_id = ''user-1'', email = ''user@example.com'', displayName = JString ''Josef'',
      hash = ''xsKJ5J6cBbIUWGA4e3O8sY30P7CaHkpKlxPHbIi7VBs='',
      metadata =
        [(''verification'',
          JObject Plain [(''email_verified'', JBool True), (''phone_verified'', JBool True),
                         (''identity_verified'', JBool False)])],
      metadata_proto = JUndefined,
      settings = own_props default_settings, settings_proto = JUndefined,
      createdAt = Instant 1577836800000, lastUpdate = Instant 1704067200000\<rparr>"


text \<open>An identity-provider record whose email has nothing before the \<^verbatim>\<open>@\<close>.\<close>

definition example_supabase_user :: SupabaseUser where
  "example_supabase_user =
     \<lparr>sb_id = ''sb-1'', sb_email = Some ''@example.com'', sb_user_metadata = Some [],
      sb_app_metadata = Some [], sb_created_at = ''2020-01-01T00:00:00.000Z'',
      sb_updated_at = Some ''2024-01-01T00:00:00.000Z'',
      sb_email_confirmed_at = None, sb_phone_confirmed_at = None\<rparr>"

text \<open>One whose \<^verbatim>\<open>updated_at\<close> is four years before its \<^verbatim>\<open>created_at\<close>.\<close>

definition example_stale_supabase_user :: SupabaseUser where
  "example_stale_supabase_user =
     \<lparr>sb_id = ''sb-1'', sb_email = Some ''user@example.com'', sb_user_metadata = Some [],
      sb_app_metadata = Some [], sb_created_at = ''2024-01-01T00:00:00.000Z'',
      sb_updated_at = Some ''2020-01-01T00:00:00.000Z'',
      sb_email_confirmed_at = None, sb_phone_confirmed_at = None\<rparr>"

text \<open>A stored object whose \<^verbatim>\<open>lastUpdate\<close> is four years before its \<^verbatim>\<open>createdAt\<close>.\<close>

definition example_stale_json :: jsval where
  "example_stale_json =
     JObject Plain
       [(''id'', JString ''user-1''), (''email'', JString ''user@example.com''),
        (''displayName'', JString ''Josef''),
        (''hash'', JString ''xsKJ5J6cBbIUWGA4e3O8sY30P7CaHkpKlxPHbIi7VBs=''),
        (''createdAt'', JString ''2024-01-01T00:00:00.000Z''),
        (''lastUpdate'', JString ''2020-01-01T00:00:00.000Z'')]"




section \<open>Properties of the sanitizer\<close>

text \<open>
  When the primitive throws, \<^verbatim>\<open>sanitizeInput\<close> returns what its handler computes; when
  there is no primitive, it returns the trimmed input.
\<close>

lemma sanitizeInput_when_primitive_throws:
  "input \<noteq> [] \<Longrightarrow>
   f input \<lparr>ALLOWED_TAGS = [], ALLOWED_ATTR = [], KEEP_CONTENT = Some True\<rparr> = None \<Longrightarrow>
   sanitizeInput (Some f) input = hardened_fallback input"
  by (simp add: sanitizeInput_def)

lemma sanitizeInput_only_trims_without_primitive: "sanitizeInput None input = trim input"
  by (simp add: sanitizeInput_def trim_def)

text \<open>
  C4: with no sanitizing primitive (or one that throws), \<^verbatim>\<open>sanitizeInput\<close> is said to
  replace the dangerous substrings, strip every tag and trim. With no primitive the code
  only trims: \<^verbatim>\<open><b>x</b>\<close> comes back as it went in, where the fallback gives \<^verbatim>\<open>x\<close>.
\<close>

theorem sanitizeInput_without_primitive_keeps_tags:
  "sanitizeInput None ''<b>x</b>'' = ''<b>x</b>'' \<and> hardened_fallback ''<b>x</b>'' = ''x''"
  by code_simp

text \<open>
  C10: two consecutive calls of \<^verbatim>\<open>checkForHTMLTags\<close> on the same input are said to
  return the same result. The fourth pattern has the flag \<^verbatim>\<open>g\<close>, so its
  \<^verbatim>\<open>lastIndex\<close> survives the call: with no sanitizing primitive, the first call on
  \<^verbatim>\<open><b>\<close> returns true and leaves \<^verbatim>\<open>lastIndex\<close> at 3, and the second call, starting
  there, returns false.
\<close>

theorem checkForHTMLTags_second_call_differs:
  "checkForHTMLTags None 0 ''<b>'' = (True, 3) \<and> checkForHTMLTags None 3 ''<b>'' = (False, 0)"
  by code_simp

text \<open>
  The same happens with a primitive, on a text that only the fourth pattern matches and
  that the primitive returns as it is.
\<close>

lemma repeated_check_differs_with_primitive:
  assumes "f ''Tom &amp; Jerry'' \<lparr>ALLOWED_TAGS = [], ALLOWED_ATTR = [], KEEP_CONTENT = None\<rparr>
             = Some ''Tom &amp; Jerry''"
  shows "checkForHTMLTags (Some f) 0 ''Tom &amp; Jerry'' = (True, 9)
         \<and> checkForHTMLTags (Some f) 9 ''Tom &amp; Jerry'' = (False, 0)"
proof -
  have a: "trim ''Tom &amp; Jerry'' \<noteq> []"
    and b: "\<not> test_ci danger_tags ''Tom &amp; Jerry''"
    and c: "\<not> test_ci danger_handlers ''Tom &amp; Jerry''"
    and d: "\<not> test_ci danger_protocols ''Tom &amp; Jerry''"
    and e: "test_global 0 ''Tom &amp; Jerry'' = (True, 9)"
    and g: "test_global 9 ''Tom &amp; Jerry'' = (False, 0)"
    by code_simp+
  have n: "''Tom &amp; Jerry'' \<noteq> []" by simp
  show ?thesis
    unfolding checkForHTMLTags_def using a b c d e g n assms by simp
qed

section \<open>Properties of the property lists\<close>

text \<open>Defining a property changes the value of that name and of no other.\<close>

lemma map_of_insert_index:
  "map_of ps k = None \<Longrightarrow> map_of (insert_index n k v ps) = (map_of ps)(k \<mapsto> v)"
proof (induction ps)
  case Nil
  then show ?case by simp
next
  case (Cons p ps)
  obtain k' v' where p: "p = (k', v')" by (cases p)
  from Cons.prems p have ne: "k' \<noteq> k" and rest: "map_of ps k = None"
    by (auto split: if_splits)
  from Cons.IH [OF rest] ne show ?case
    unfolding p by (auto simp: fun_upd_twist split: option.splits)
qed

lemma map_of_put: "map_of (put k v ps) = (map_of ps)(k \<mapsto> v)"
proof (cases "map_of ps k")
  case None
  then show ?thesis
    by (cases "index_of k")
       (auto simp: put_def map_of_insert_index map_add_def fun_eq_iff split: option.splits)
next
  case (Some x)
  then show ?thesis by (simp add: put_def update_conv')
qed

lemma own_value_put: "own_value (put k v ps) k' = (if k' = k then v else own_value ps k')"
  by (simp add: own_value_def map_of_put)

lemma own_value_update:
  "own_value (AList.update k v ps) k' = (if k' = k then v else own_value ps k')"
  by (simp add: own_value_def update_conv')

lemma spread_single: "spread a [(k, v)] = put k v a"
  by (simp add: spread_def)

lemma updateMetadata_single:
  "own_value (metadata (updateMetadata u now [(k, v)])) k' = (if k' = k then v else own_value (metadata u) k')"
  by (simp add: updateMetadata_def updateTimestamp_def spread_single own_value_put)

text \<open>
  Under the standard prototype a read sees the own properties only, and that is the
  prototype of the metadata after \<^verbatim>\<open>updateMetadata\<close>.
\<close>

lemma read_property_standard: "read_property ps JUndefined k = own_value ps k"
  by (simp add: read_property_def own_value_def split: option.splits)

lemma metadata_value_updateMetadata:
  "metadata_value (updateMetadata u now updates) k
     = own_value (metadata (updateMetadata u now updates)) k"
  by (simp add: metadata_value_def updateMetadata_def updateTimestamp_def read_property_standard)

text \<open>
  The object \<^verbatim>\<open>this._metadata.verification\<close> denotes, once changed in place, is what
  the same expression reads afterwards; the own properties other than
  \<^verbatim>\<open>verification\<close> and the other fields are as before.
\<close>

lemma metadata_value_store_verification:
  assumes "truthy (metadata_value u ''verification'')"
  shows "metadata_value (store_verification ver u) ''verification'' = ver"
proof (cases "map_of (metadata u) ''verification''")
  case (Some x)
  then show ?thesis
    by (simp add: metadata_value_def store_verification_def read_property_def update_conv')
next
  case None
  with assms obtain c qs where p: "metadata_proto u = JObject c qs"
    by (cases "metadata_proto u") (auto simp: metadata_value_def read_property_def)
  with None show ?thesis
    by (simp add: metadata_value_def store_verification_def read_property_def own_value_update)
qed

lemma own_value_store_verification:
  "k \<noteq> ''verification'' \<Longrightarrow>
   own_value (metadata (store_verification ver u)) k = own_value (metadata u) k"
  by (simp add: store_verification_def own_value_update)

lemma email_store_verification: "email (store_verification ver u) = email u"
  by (simp add: store_verification_def)

lemma lastUpdate_store_verification: "lastUpdate (store_verification ver u) = lastUpdate u"
  by (simp add: store_verification_def)

lemma createdAt_store_verification: "createdAt (store_verification ver u) = createdAt u"
  by (simp add: store_verification_def)


section \<open>Properties of the setters\<close>

text \<open>
  A text that the first pattern of \<^verbatim>\<open>DANGER_PATTERNS\<close> matches is reported by
  \<^verbatim>\<open>checkForHTMLTags\<close> whatever the primitive and the stored \<^verbatim>\<open>lastIndex\<close>.
\<close>

lemma checkForHTMLTags_danger_tag:
  "trim input \<noteq> [] \<Longrightarrow> test_ci danger_tags input \<Longrightarrow>
   checkForHTMLTags f li input = (True, li)"
  by (auto simp: checkForHTMLTags_def trim_def)


text \<open>
  C1: a display name with a script tag is said to be rejected by the setter and by
  \<^verbatim>\<open>initialize\<close>. Neither calls \<^verbatim>\<open>checkForHTMLTags\<close>: the setter returns and leaves
  \<^verbatim>\<open><script>alert('hacked')</script> Josef\<close> as the display name, and \<^verbatim>\<open>initialize\<close>
  returns an entity whose display name is \<^verbatim>\<open><script>x</script>\<close>, although
  \<^verbatim>\<open>checkForHTMLTags\<close> reports both texts.
\<close>

theorem displayName_accepts_script_tag:
  "checkForHTMLTags f li ''<script>alert('hacked')</script> Josef'' = (True, li)
   \<and> set_displayName example_user 1704067200001 ''<script>alert('hacked')</script> Josef''
       = Returns (example_user\<lparr>displayName := JString ''<script>alert('hacked')</script> Josef'',
                               lastUpdate := Instant 1704067200001\<rparr>)
   \<and> checkForHTMLTags f li ''<script>x</script>'' = (True, li)
   \<and> \<not> isl (initialize example_host 1577836800000 1577836800000
               ''user@example.com'' ''<script>x</script>'' None)
   \<and> displayName (projr (initialize example_host 1577836800000 1577836800000
                            ''user@example.com'' ''<script>x</script>'' None))
       = JString ''<script>x</script>''"
proof -
  have a: "trim ''<script>alert('hacked')</script> Josef'' \<noteq> []"
    and b: "test_ci danger_tags ''<script>alert('hacked')</script> Josef''"
    and c: "trim ''<script>x</script>'' \<noteq> []"
    and d: "test_ci danger_tags ''<script>x</script>''"
    by code_simp+
  have e: "set_displayName example_user 1704067200001 ''<script>alert('hacked')</script> Josef''
       = Returns (example_user\<lparr>displayName := JString ''<script>alert('hacked')</script> Josef'',
                               lastUpdate := Instant 1704067200001\<rparr>)"
    by code_simp
  have g: "\<not> isl (initialize example_host 1577836800000 1577836800000
               ''user@example.com'' ''<script>x</script>'' None)
   \<and> displayName (projr (initialize example_host 1577836800000 1577836800000
                            ''user@example.com'' ''<script>x</script>'' None))
       = JString ''<script>x</script>''"
    by code_simp
  from checkForHTMLTags_danger_tag [OF a b] checkForHTMLTags_danger_tag [OF c d] e g
  show ?thesis by simp
qed

text \<open>
  C2: a \<^verbatim>\<open>javascript:\<close> URI is said to be rejected by \<^verbatim>\<open>setPicture\<close> and
  \<^verbatim>\<open>setSocialLink\<close>, the metadata staying as it was. Both store it.
\<close>

theorem setPicture_and_setSocialLink_accept_javascript_uri:
  "own_value (metadata example_user) ''picture'' = JUndefined
   \<and> own_value (metadata (setPicture example_user 1704067200001 ''javascript:alert('xss')''))
        ''picture'' = JString ''javascript:alert('xss')''
   \<and> own_value (metadata example_user) ''social_links'' = JUndefined
   \<and> own_value (metadata (setSocialLink example_user 1704067200001 ''Website URL''
                               ''javascript:alert('xss')'')) ''social_links''
       = JObject Plain [(''Website URL'', JString ''javascript:alert('xss')'')]"
  by code_simp

text \<open>
  C3: \<^verbatim>\<open>setBio\<close> is said to store the sanitized form of its input, so that
  \<^verbatim>\<open>I love <b>coding</b>\<close> is stored as \<^verbatim>\<open>I love coding\<close>. It stores the input as it is;
  \<^verbatim>\<open>I love coding\<close> is what the fallback of \<^verbatim>\<open>sanitizeInput\<close> makes of it.
\<close>

theorem setBio_stores_markup:
  "own_value (metadata (setBio example_user 1704067200001 ''I love <b>coding</b>'')) ''bio''
     = JString ''I love <b>coding</b>''
   \<and> hardened_fallback ''I love <b>coding</b>'' = ''I love coding''"
  by code_simp

text \<open>
  Clearing a flag: after the assignment the flag reads false, and it also reads false
  when \<^verbatim>\<open>verification\<close> is falsy and nothing is assigned.
\<close>

lemma cleared_flag:
  assumes "truthy ver" and "set_member ver flag (JBool False) = Inr ver'"
  shows "coalesce (get_member ver' flag) (JBool False) = JBool False"
  using assms by (cases ver) (auto simp: own_value_put coalesce_def)

lemma falsy_flag:
  assumes "\<not> truthy ver"
  shows "coalesce (get_member ver flag) (JBool False) = JBool False"
  using assms by (cases ver) (auto simp: coalesce_def)

text \<open>
  C5: whenever the email setter returns, the entity it leaves has the new email and
  \<^verbatim>\<open>isEmailVerified\<close> false; whenever \<^verbatim>\<open>setPhone\<close> returns, the entity it leaves has
  the new phone and \<^verbatim>\<open>isPhoneVerified\<close> false. Both hold whatever the flags were before.
\<close>

theorem verification_cleared_on_change:
  "(set_email u now v = Returns u' \<longrightarrow> email u' = v \<and> isEmailVerified u' = JBool False)
   \<and> (setPhone u now ph = Returns u'' \<longrightarrow>
        own_value (metadata u'') ''phone'' = JString ph \<and> isPhoneVerified u'' = JBool False)"
proof (intro conjI impI)
  assume a: "set_email u now v = Returns u'"
  let ?u0 = "u\<lparr>email := v\<rparr>"
  have m0: "metadata_value ?u0 ''verification'' = metadata_value u ''verification''"
    by (simp add: metadata_value_def)
  show "email u' = v"
    using a
    by (auto simp: set_email_def Let_def updateTimestamp_def email_store_verification
          split: sum.splits if_splits)
  show "isEmailVerified u' = JBool False"
  proof (cases "truthy (metadata_value u ''verification'')")
    case True
    with a m0 obtain ver' where
      s: "set_member (metadata_value u ''verification'') ''email_verified'' (JBool False) = Inr ver'"
      and u': "u' = updateTimestamp now (store_verification ver' ?u0)"
      by (auto simp: set_email_def Let_def split: sum.splits if_splits)
    from True m0 have "metadata_value (store_verification ver' ?u0) ''verification'' = ver'"
      by (simp add: metadata_value_store_verification)
    with u' have "metadata_value u' ''verification'' = ver'"
      by (simp add: metadata_value_def updateTimestamp_def)
    with cleared_flag [OF True s] show ?thesis by (simp add: isEmailVerified_def)
  next
    case False
    with a m0 have "metadata_value u' ''verification'' = metadata_value u ''verification''"
      by (auto simp: set_email_def Let_def updateTimestamp_def metadata_value_def
            split: sum.splits if_splits)
    with falsy_flag [OF False] show ?thesis by (simp add: isEmailVerified_def)
  qed
next
  assume a: "setPhone u now ph = Returns u''"
  let ?u1 = "updateMetadata u now [(''phone'', JString ph)]"
  have ph1: "own_value (metadata ?u1) ''phone'' = JString ph"
    by (simp add: updateMetadata_single)
  show "own_value (metadata u'') ''phone'' = JString ph"
    using a ph1
    by (auto simp: setPhone_def Let_def own_value_store_verification
          split: sum.splits if_splits)
  show "isPhoneVerified u'' = JBool False"
  proof (cases "truthy (metadata_value ?u1 ''verification'')")
    case True
    with a obtain ver' where
      s: "set_member (metadata_value ?u1 ''verification'') ''phone_verified'' (JBool False) = Inr ver'"
      and u': "u'' = store_verification ver' ?u1"
      by (auto simp: setPhone_def Let_def split: sum.splits if_splits)
    from True u' have "metadata_value u'' ''verification'' = ver'"
      by (simp add: metadata_value_store_verification)
    with cleared_flag [OF True s] show ?thesis by (simp add: isPhoneVerified_def)
  next
    case False
    with a have "u'' = ?u1"
      by (auto simp: setPhone_def Let_def split: sum.splits if_splits)
    with falsy_flag [OF False] show ?thesis by (simp add: isPhoneVerified_def)
  qed
qed

theorem verification_cleared_on_change_witness:
  "isEmailVerified example_user = JBool True \<and> isPhoneVerified example_user = JBool True
   \<and> set_email example_user 1704067200001 ''new@example.com''
       = Returns (entity (set_email example_user 1704067200001 ''new@example.com''))
   \<and> email (entity (set_email example_user 1704067200001 ''new@example.com''))
       = ''new@example.com''
   \<and> isEmailVerified (entity (set_email example_user 1704067200001 ''new@example.com''))
       = JBool False
   \<and> setPhone example_user 1704067200001 ''+639123456789''
       = Returns (entity (setPhone example_user 1704067200001 ''+639123456789''))
   \<and> own_value (metadata (entity (setPhone example_user 1704067200001 ''+639123456789'')))
        ''phone'' = JString ''+639123456789''
   \<and> isPhoneVerified (entity (setPhone example_user 1704067200001 ''+639123456789''))
       = JBool False"
proof -
  have e: "returned (set_email example_user 1704067200001 ''new@example.com'')"
    and p: "returned (setPhone example_user 1704067200001 ''+639123456789'')"
    and v: "isEmailVerified example_user = JBool True \<and> isPhoneVerified example_user = JBool True"
    by code_simp+
  from e have e': "set_email example_user 1704067200001 ''new@example.com''
       = Returns (entity (set_email example_user 1704067200001 ''new@example.com''))"
    by (cases "set_email example_user 1704067200001 ''new@example.com''") simp_all
  from p have p': "setPhone example_user 1704067200001 ''+639123456789''
       = Returns (entity (setPhone example_user 1704067200001 ''+639123456789''))"
    by (cases "setPhone example_user 1704067200001 ''+639123456789''") simp_all
  from verification_cleared_on_change
         [of example_user 1704067200001 "''new@example.com''"
             "entity (set_email example_user 1704067200001 ''new@example.com'')"
             "''+639123456789''"
             "entity (setPhone example_user 1704067200001 ''+639123456789'')"]
       e' p' v
  show ?thesis by blast
qed

section \<open>Properties of \<^verbatim>\<open>setBirthdate\<close>\<close>

text \<open>The expression \<^verbatim>\<open>/^\d{4}-\d{2}-\d{2}$/\<close> accepts exactly the strict form.\<close>

lemma length_ten:
  assumes "length s = 10"
  obtains a b c d e f g h i j where "s = [a, b, c, d, e, f, g, h, i, j]"
proof -
  from assms have "\<exists>a b c d e f g h i j. s = [a, b, c, d, e, f, g, h, i, j]"
    by (simp add: eval_nat_numeral length_Suc_conv) blast
  then show ?thesis using that by blast
qed

lemma birthdate_shape_imp_yyyy_mm_dd:
  assumes "birthdate_shape s"
  shows "is_yyyy_mm_dd s"
proof -
  from assms have "length s = 10" by (simp add: birthdate_shape_def)
  then obtain a b c d e f g h i j where s: "s = [a, b, c, d, e, f, g, h, i, j]"
    by (rule length_ten)
  from assms s have sep: "e = CHR ''-''" "h = CHR ''-''"
    and dig: "list_all is_digit [a, b, c, d]" "list_all is_digit [f, g]" "list_all is_digit [i, j]"
    by (simp_all add: birthdate_shape_def)
  have "s = [a, b, c, d] @ ''-'' @ [f, g] @ ''-'' @ [i, j]"
    using s sep by simp
  with dig show ?thesis
    unfolding is_yyyy_mm_dd_def by (intro exI[of _ "[a, b, c, d]"] exI[of _ "[f, g]"] exI[of _ "[i, j]"]) simp
qed

lemma yyyy_mm_dd_imp_birthdate_shape:
  assumes "is_yyyy_mm_dd s"
  shows "birthdate_shape s"
proof -
  from assms obtain y m d where s: "s = y @ ''-'' @ m @ ''-'' @ d"
    and len: "length y = 4" "length m = 2" "length d = 2"
    and dig: "list_all is_digit y" "list_all is_digit m" "list_all is_digit d"
    unfolding is_yyyy_mm_dd_def by blast
  show ?thesis
    unfolding birthdate_shape_def using s len dig by simp
qed

lemma birthdate_shape_iff: "birthdate_shape s \<longleftrightarrow> is_yyyy_mm_dd s"
  using birthdate_shape_imp_yyyy_mm_dd yyyy_mm_dd_imp_birthdate_shape by blast


text \<open>
  C7, as stated, fails: \<^verbatim>\<open>setBirthdate("2023-02-30")\<close> is said to throw, and it
  returns, the string being stored.
\<close>

theorem setBirthdate_accepts_impossible_date:
  "returned (setBirthdate example_host example_user 1704067200001 (BString ''2023-02-30''))
   \<and> own_value (metadata (entity (setBirthdate example_host example_user 1704067200001
                                      (BString ''2023-02-30'')))) ''birthdate''
       = JString ''2023-02-30''"
  by code_simp

text \<open>
  C7, amended: for every string, \<^verbatim>\<open>setBirthdate\<close> succeeds exactly when the string is
  in the strict form \<^verbatim>\<open>YYYY-MM-DD\<close>; it then stores the string as the birthdate, with no
  look at the calendar. Any other string makes it throw, the entity staying as it was.
\<close>

theorem setBirthdate_string_checks_form_only:
  "(is_yyyy_mm_dd s \<longrightarrow>
      returned (setBirthdate h u now (BString s))
      \<and> own_value (metadata (entity (setBirthdate h u now (BString s)))) ''birthdate''
          = JString s)
   \<and> (\<not> is_yyyy_mm_dd s \<longrightarrow>
      setBirthdate h u now (BString s)
        = Throws (Error ''Invalid birthdate format. Use YYYY-MM-DD'') u)"
  by (simp add: setBirthdate_def birthdate_shape_iff updateMetadata_single)

theorem setBirthdate_string_checks_form_only_witness:
  "is_yyyy_mm_dd ''1995-10-26''
   \<and> returned (setBirthdate example_host example_user 1704067200001 (BString ''1995-10-26''))
   \<and> own_value (metadata (entity (setBirthdate example_host example_user 1704067200001
                                      (BString ''1995-10-26'')))) ''birthdate''
       = JString ''1995-10-26''
   \<and> \<not> is_yyyy_mm_dd ''26/10/1995''
   \<and> setBirthdate example_host example_user 1704067200001 (BString ''26/10/1995'')
       = Throws (Error ''Invalid birthdate format. Use YYYY-MM-DD'') example_user"
proof -
  have "birthdate_shape ''1995-10-26''" by code_simp
  then have a: "is_yyyy_mm_dd ''1995-10-26''" using birthdate_shape_iff by blast
  have "\<not> birthdate_shape ''26/10/1995''" by code_simp
  then have b: "\<not> is_yyyy_mm_dd ''26/10/1995''" using birthdate_shape_iff by blast
  from a b
    setBirthdate_string_checks_form_only
      [of "''1995-10-26''" example_host example_user 1704067200001]
    setBirthdate_string_checks_form_only
      [of "''26/10/1995''" example_host example_user 1704067200001]
  show ?thesis by blast
qed

section \<open>Properties of validation\<close>








section \<open>Properties of serialization\<close>










section \<open>Properties of the timestamps\<close>

lemma date_le_trans: "date_le a b \<Longrightarrow> date_le b c \<Longrightarrow> date_le a c"
  by (cases a; cases b; cases c) simp_all

lemma date_le_refl_right: "date_le a b \<Longrightarrow> date_le b b"
  by (cases a; cases b) simp_all

lemma updateMetadata_timestamps:
  "createdAt (updateMetadata u now ups) = createdAt u
   \<and> lastUpdate (updateMetadata u now ups) = Instant now"
  by (simp add: updateMetadata_def updateTimestamp_def)

lemma updateSettings_timestamps:
  "createdAt (updateSettings u now ups) = createdAt u
   \<and> lastUpdate (updateSettings u now ups) = Instant now"
  by (simp add: updateSettings_def updateTimestamp_def)

lemma perform_timestamps:
  assumes "perform h now opn u = Returns u'"
  shows "createdAt u' = createdAt u
         \<and> (lastUpdate u' = Instant now \<or> lastUpdate u' = lastUpdate u)"
proof (cases opn)
  case (Op_set_fullNameObject nm)
  with assms show ?thesis
    by (auto simp: set_fullNameObject_def updateTimestamp_def split: if_splits)
next
  case (Op_set_email v)
  with assms show ?thesis
    by (auto simp: set_email_def Let_def updateTimestamp_def createdAt_store_verification
          split: sum.splits if_splits)
next
  case (Op_set_displayName v)
  with assms show ?thesis
    by (auto simp: set_displayName_def updateTimestamp_def split: if_splits)
next
  case (Op_set_hash v)
  with assms show ?thesis
    by (auto simp: set_hash_def updateTimestamp_def split: if_splits)
next
  case (Op_setBirthdate b)
  with assms show ?thesis
    by (auto simp: setBirthdate_def updateMetadata_timestamps
          split: birthdate_arg.splits if_splits sum.splits)
next
  case (Op_setPhone ph)
  with assms show ?thesis
    by (auto simp: setPhone_def Let_def updateMetadata_timestamps createdAt_store_verification
          lastUpdate_store_verification split: sum.splits if_splits)
next
  case (Op_removeSocialLink platform)
  with assms show ?thesis
    by (auto simp: removeSocialLink_def Let_def updateMetadata_timestamps split: if_splits)
next
  case (Op_setMetadata k v)
  with assms show ?thesis
    by (auto simp: setMetadata_def updateTimestamp_def split: prod.splits)
next
  case (Op_setSetting k v)
  with assms show ?thesis
    by (auto simp: setSetting_def updateTimestamp_def split: prod.splits)
qed (use assms in \<open>auto simp: setName_def setPicture_def setAddress_def setGender_def setBio_def
      setLanguage_def setTimezone_def setSocialLink_def Let_def verifyEmail_def unverifyEmail_def
      verifyPhone_def unverifyPhone_def verifyIdentity_def unverifyIdentity_def
      enableNotifications_def disableNotifications_def restrict_def unrestrict_def
      updateMetadata_timestamps updateSettings_timestamps\<close>)

lemma initialize_timestamps:
  assumes "initialize h t1 t2 e d i = Inr u"
  shows "createdAt u = Instant t1 \<and> lastUpdate u = Instant t2"
  using assms
  by (auto simp: initialize_def new_MajikUser_def Let_def split: if_splits sum.splits option.splits)

lemma fromJSON_timestamps:
  assumes "fromJSON h t1 t2 json = Inr u"
  shows "payload_date h t1 (get_member (payload_of h json) ''createdAt'') = Inr (createdAt u)
         \<and> payload_date h t2 (get_member (payload_of h json) ''lastUpdate'') = Inr (lastUpdate u)"
proof -
  define data where "data = payload_of h json"
  have p: "(case json of
              JString text \<Rightarrow>
                (case json_parse h text of None \<Rightarrow> Inl SyntaxError | Some d \<Rightarrow> Inr d)
            | _ \<Rightarrow> Inr json) = Inr data"
    using assms unfolding data_def payload_of_def fromJSON_def
    by (cases json) (auto split: option.splits)
  from assms show ?thesis
    unfolding fromJSON_def p data_def [symmetric] payload_date_def
    by (auto simp: new_MajikUser_def split: if_splits sum.splits)
qed

lemma fromSupabase_timestamps:
  assumes "fromSupabase h sb = Inr u"
  shows "createdAt u = parse_date h (sb_created_at sb)
         \<and> lastUpdate u = parse_date h (supabase_updated sb)"
  using assms
  by (auto simp: fromSupabase_def supabase_updated_def new_MajikUser_def Let_def
        split: if_splits sum.splits)

text \<open>
  C9, as stated, fails: \<^verbatim>\<open>fromJSON\<close> and \<^verbatim>\<open>fromSupabase\<close> make the two timestamps of
  what their payload says, so each returns an entity whose \<^verbatim>\<open>lastUpdate\<close> is before
  its \<^verbatim>\<open>createdAt\<close> from a payload that has them so; a successful operation on such an
  entity, at a clock reading between the two, leaves \<^verbatim>\<open>lastUpdate\<close> before
  \<^verbatim>\<open>createdAt\<close>; and a successful operation at a clock reading before the stored
  \<^verbatim>\<open>lastUpdate\<close> moves \<^verbatim>\<open>lastUpdate\<close> back.
\<close>

theorem lastUpdate_order_broken_by_factories:
  "\<not> isl (fromJSON example_host 0 0 example_stale_json)
   \<and> \<not> date_le (createdAt (projr (fromJSON example_host 0 0 example_stale_json)))
                (lastUpdate (projr (fromJSON example_host 0 0 example_stale_json)))
   \<and> \<not> isl (fromSupabase example_host example_stale_supabase_user)
   \<and> \<not> date_le (createdAt (projr (fromSupabase example_host example_stale_supabase_user)))
                (lastUpdate (projr (fromSupabase example_host example_stale_supabase_user)))
   \<and> returned (perform example_host 1609459200000 Op_verifyEmail
                 (projr (fromJSON example_host 0 0 example_stale_json)))
   \<and> \<not> date_le (createdAt (entity (perform example_host 1609459200000 Op_verifyEmail
                                     (projr (fromJSON example_host 0 0 example_stale_json)))))
                (lastUpdate (entity (perform example_host 1609459200000 Op_verifyEmail
                                      (projr (fromJSON example_host 0 0 example_stale_json)))))
   \<and> returned (perform example_host 1577836800000 Op_verifyEmail example_user)
   \<and> \<not> date_le (lastUpdate example_user)
                (lastUpdate (entity (perform example_host 1577836800000 Op_verifyEmail
                                      example_user)))"
  by code_simp

text \<open>
  C9, amended. An entity that \<^verbatim>\<open>initialize\<close> returns, its two clock readings being in
  order, has \<^verbatim>\<open>lastUpdate\<close> at or after \<^verbatim>\<open>createdAt\<close>. An entity that \<^verbatim>\<open>fromJSON\<close>
  returns has \<^verbatim>\<open>lastUpdate\<close> at or after \<^verbatim>\<open>createdAt\<close> exactly when the dates made of
  the \<^verbatim>\<open>createdAt\<close> and the \<^verbatim>\<open>lastUpdate\<close> of its payload (the clock reading for a falsy
  one) are valid and in that order; one that \<^verbatim>\<open>fromSupabase\<close> returns, exactly when the
  dates made of \<^verbatim>\<open>created_at\<close> and of \<^verbatim>\<open>updated_at || created_at\<close> are. A mutating
  operation that returns, on an entity with \<^verbatim>\<open>lastUpdate\<close> at or after \<^verbatim>\<open>createdAt\<close>
  and at a clock reading not before that \<^verbatim>\<open>lastUpdate\<close>, leaves \<^verbatim>\<open>createdAt\<close> as it
  was, \<^verbatim>\<open>lastUpdate\<close> at or after \<^verbatim>\<open>createdAt\<close>, and \<^verbatim>\<open>lastUpdate\<close> not before its
  old value.
\<close>

theorem lastUpdate_order_kept:
  "(initialize h t1 t2 e d i = Inr u0 \<and> t1 \<le> t2 \<longrightarrow> date_le (createdAt u0) (lastUpdate u0))
   \<and> (fromJSON h t3 t4 json = Inr u1
        \<and> payload_date h t3 (get_member (payload_of h json) ''createdAt'') = Inr a
        \<and> payload_date h t4 (get_member (payload_of h json) ''lastUpdate'') = Inr b \<longrightarrow>
        (date_le (createdAt u1) (lastUpdate u1) \<longleftrightarrow> date_le a b))
   \<and> (fromSupabase h sb = Inr u2 \<longrightarrow>
        (date_le (createdAt u2) (lastUpdate u2) \<longleftrightarrow>
         date_le (parse_date h (sb_created_at sb)) (parse_date h (supabase_updated sb))))
   \<and> (perform h now opn u = Returns u' \<and> date_le (createdAt u) (lastUpdate u)
        \<and> date_le (lastUpdate u) (Instant now) \<longrightarrow>
        createdAt u' = createdAt u \<and> date_le (createdAt u') (lastUpdate u')
        \<and> date_le (lastUpdate u) (lastUpdate u'))"
proof (intro conjI impI)
  assume "initialize h t1 t2 e d i = Inr u0 \<and> t1 \<le> t2"
  then show "date_le (createdAt u0) (lastUpdate u0)"
    using initialize_timestamps [of h t1 t2 e d i u0] by simp
next
  assume "fromJSON h t3 t4 json = Inr u1
        \<and> payload_date h t3 (get_member (payload_of h json) ''createdAt'') = Inr a
        \<and> payload_date h t4 (get_member (payload_of h json) ''lastUpdate'') = Inr b"
  then show "date_le (createdAt u1) (lastUpdate u1) \<longleftrightarrow> date_le a b"
    using fromJSON_timestamps [of h t3 t4 json u1] by simp
next
  assume "fromSupabase h sb = Inr u2"
  then show "date_le (createdAt u2) (lastUpdate u2) \<longleftrightarrow>
         date_le (parse_date h (sb_created_at sb)) (parse_date h (supabase_updated sb))"
    using fromSupabase_timestamps [of h sb u2] by simp
next
  assume a: "perform h now opn u = Returns u' \<and> date_le (createdAt u) (lastUpdate u)
        \<and> date_le (lastUpdate u) (Instant now)"
  then have ts: "createdAt u' = createdAt u"
    "lastUpdate u' = Instant now \<or> lastUpdate u' = lastUpdate u"
    using perform_timestamps [of h now opn u u'] by simp_all
  show "createdAt u' = createdAt u" by (rule ts(1))
  from a have le: "date_le (createdAt u) (lastUpdate u)" "date_le (lastUpdate u) (Instant now)"
    by simp_all
  show "date_le (createdAt u') (lastUpdate u')"
    using ts le date_le_trans [of "createdAt u" "lastUpdate u" "Instant now"] by auto
  show "date_le (lastUpdate u) (lastUpdate u')"
    using ts(2) le date_le_refl_right [of "createdAt u" "lastUpdate u"] by auto
qed

theorem lastUpdate_order_kept_witness:
  "initialize example_host 1577836800000 1704067200000 ''user@example.com'' ''Josef''
       (Some ''user-1'')
     = Inr (projr (initialize example_host 1577836800000 1704067200000 ''user@example.com''
                     ''Josef'' (Some ''user-1'')))
   \<and> date_le (createdAt (projr (initialize example_host 1577836800000 1704067200000
                                  ''user@example.com'' ''Josef'' (Some ''user-1''))))
              (lastUpdate (projr (initialize example_host 1577836800000 1704067200000
                                   ''user@example.com'' ''Josef'' (Some ''user-1''))))
   \<and> fromJSON example_host 0 0 example_stored_value
       = Inr (projr (fromJSON example_host 0 0 example_stored_value))
   \<and> payload_date example_host 0
        (get_member (payload_of example_host example_stored_value) ''createdAt'')
       = Inr (Instant 1577836800000)
   \<and> payload_date example_host 0
        (get_member (payload_of example_host example_stored_value) ''lastUpdate'')
       = Inr (Instant 1704067200000)
   \<and> date_le (createdAt (projr (fromJSON example_host 0 0 example_stored_value)))
              (lastUpdate (projr (fromJSON example_host 0 0 example_stored_value)))
   \<and> fromSupabase example_host example_supabase_user
       = Inr (projr (fromSupabase example_host example_supabase_user))
   \<and> date_le (parse_date example_host (sb_created_at example_supabase_user))
              (parse_date example_host (supabase_updated example_supabase_user))
   \<and> date_le (createdAt (projr (fromSupabase example_host example_supabase_user)))
              (lastUpdate (projr (fromSupabase example_host example_supabase_user)))
   \<and> perform example_host 1704067200001 (Op_set_email ''new@example.com'') example_user
       = Returns (entity (perform example_host 1704067200001 (Op_set_email ''new@example.com'')
                            example_user))
   \<and> date_le (createdAt example_user) (lastUpdate example_user)
   \<and> date_le (lastUpdate example_user) (Instant 1704067200001)
   \<and> createdAt (entity (perform example_host 1704067200001 (Op_set_email ''new@example.com'')
                          example_user)) = createdAt example_user
   \<and> date_le (lastUpdate example_user)
              (lastUpdate (entity (perform example_host 1704067200001
                                    (Op_set_email ''new@example.com'') example_user)))"
proof -
  have i: "\<not> isl (initialize example_host 1577836800000 1704067200000 ''user@example.com''
                   ''Josef'' (Some ''user-1''))"
    and j: "\<not> isl (fromJSON example_host 0 0 example_stored_value)"
    and s: "\<not> isl (fromSupabase example_host example_supabase_user)"
    and q: "returned (perform example_host 1704067200001 (Op_set_email ''new@example.com'')
                      example_user)"
    by code_simp+
  from i have i': "initialize example_host 1577836800000 1704067200000 ''user@example.com''
                   ''Josef'' (Some ''user-1'')
       = Inr (projr (initialize example_host 1577836800000 1704067200000 ''user@example.com''
                       ''Josef'' (Some ''user-1'')))"
    by (cases "initialize example_host 1577836800000 1704067200000 ''user@example.com''
                 ''Josef'' (Some ''user-1'')") simp_all
  from j have j': "fromJSON example_host 0 0 example_stored_value
       = Inr (projr (fromJSON example_host 0 0 example_stored_value))"
    by (cases "fromJSON example_host 0 0 example_stored_value") simp_all
  from s have s': "fromSupabase example_host example_supabase_user
       = Inr (projr (fromSupabase example_host example_supabase_user))"
    by (cases "fromSupabase example_host example_supabase_user") simp_all
  from q have q': "perform example_host 1704067200001 (Op_set_email ''new@example.com'')
                     example_user
       = Returns (entity (perform example_host 1704067200001 (Op_set_email ''new@example.com'')
                            example_user))"
    by (cases "perform example_host 1704067200001 (Op_set_email ''new@example.com'')
                 example_user") simp_all
  have pd: "payload_date example_host 0
        (get_member (payload_of example_host example_stored_value) ''createdAt'')
       = Inr (Instant 1577836800000)
   \<and> payload_date example_host 0
        (get_member (payload_of example_host example_stored_value) ''lastUpdate'')
       = Inr (Instant 1704067200000)"
    by code_simp
  have sd: "date_le (parse_date example_host (sb_created_at example_supabase_user))
              (parse_date example_host (supabase_updated example_supabase_user))"
    by code_simp
  have le: "date_le (createdAt example_user) (lastUpdate example_user)
            \<and> date_le (lastUpdate example_user) (Instant 1704067200001)"
    by code_simp
  have t: "(1577836800000 :: int) \<le> 1704067200000"
    "date_le (Instant 1577836800000) (Instant 1704067200000)" by simp_all
  from lastUpdate_order_kept
         [of example_host 1577836800000 1704067200000 "''user@example.com''" "''Josef''"
             "Some ''user-1''"
             "projr (initialize example_host 1577836800000 1704067200000 ''user@example.com''
                       ''Josef'' (Some ''user-1''))"
             0 0 example_stored_value
             "projr (fromJSON example_host 0 0 example_stored_value)"
             "Instant 1577836800000" "Instant 1704067200000"
             example_supabase_user
             "projr (fromSupabase example_host example_supabase_user)"
             1704067200001 "Op_set_email ''new@example.com''" example_user
             "entity (perform example_host 1704067200001 (Op_set_email ''new@example.com'')
                        example_user)"]
       i' j' s' q' pd sd le t
  show ?thesis by blast
qed

end
